theory Spec2Isabelle
  imports Main "HOL-Library.Word" "HOL-Library.Sublist" "HOL-Library.AList"
begin

section \<open>Hubble: endpoint table, HTTP comparison, CIDR labels, IP cache\<close>

text \<open>
  A shallow embedding of the Go package \<^verbatim>\<open>pkg/api/v1\<close> (the endpoint table in
  \<^verbatim>\<open>endpoint.go\<close>, the HTTP comparison in \<^verbatim>\<open>http.go\<close>) and, where the sources hold
  only the tests of a function, of the behaviour the specification gives for it.
  Go strings are byte strings (\<open>string\<close>), \<^verbatim>\<open>uint64\<close> is \<open>64 word\<close>, a slice that can be
  \<^verbatim>\<open>nil\<close> is an \<open>option\<close> of a list, a pointer is an address into an explicit heap.
\<close>

subsection \<open>Endpoints\<close>

text \<open>
  \<^verbatim>\<open>time.Time\<close> is kept abstract as a count of nanoseconds; \<^verbatim>\<open>net.IP\<close> is a byte slice.
\<close>

type_synonym Time = int
type_synonym IP = "8 word list"

text \<open>
  Modelled from the spec: the declaration of \<^verbatim>\<open>type Endpoint struct\<close> is not in the
  sources. The fields are those of section 3 of the specification (numeric id, IPv4,
  IPv6, container ids, pod name, pod namespace, labels, created-at, nullable deleted-at),
  with the names and types their uses in \<^verbatim>\<open>endpoint.go\<close> and in the tests fix:
  \<^verbatim>\<open>ID\<close> is compared with a \<^verbatim>\<open>uint64\<close> and with \<^verbatim>\<open>0\<close>, \<^verbatim>\<open>IPv4\<close> and \<^verbatim>\<open>IPv6\<close> are
  \<^verbatim>\<open>net.IP\<close> values compared with \<^verbatim>\<open>nil\<close>, \<^verbatim>\<open>ContainerIDs\<close> and \<^verbatim>\<open>Labels\<close> are slices of
  strings, \<^verbatim>\<open>Deleted\<close> is a \<^verbatim>\<open>*time.Time\<close> (\<open>None\<close> is \<^verbatim>\<open>nil\<close>: the endpoint is live).
\<close>

record Endpoint =
  Created :: Time
  Deleted :: "Time option"
  ContainerIDs :: "string list option"
  ID :: "64 word"
  IPv4 :: "IP option"
  IPv6 :: "IP option"
  PodName :: string
  PodNamespace :: string
  Labels :: "string list option"

text \<open>The zero value of the struct, as a Go composite literal with no field gives it.\<close>

definition zero_Endpoint :: Endpoint where
  "zero_Endpoint =
     \<lparr>Created = 0, Deleted = None, ContainerIDs = None, ID = 0, IPv4 = None, IPv6 = None,
      PodName = [], PodNamespace = [], Labels = None\<rparr>"

text \<open>
  \<^verbatim>\<open>func (e *Endpoint) EqualsByID(o *Endpoint) bool\<close>, on the values the two pointers
  hold. In Go \<^verbatim>\<open>&&\<close> binds tighter than \<^verbatim>\<open>||\<close>.
\<close>

definition EqualsByID :: "Endpoint \<Rightarrow> Endpoint \<Rightarrow> bool" where
  "EqualsByID e o' \<longleftrightarrow>
     (ID e = ID o' \<and> PodName e = [] \<and> PodNamespace e = []) \<or>
     (ID e = ID o' \<and> PodName e = PodName o' \<and> PodNamespace e = PodNamespace o')"

text \<open>
  The predicate of section 3 of the specification, in its words: the numeric ids match
  and either both sides have empty pod name and namespace or both pod name and namespace
  match.
\<close>

definition same_endpoint_spec :: "Endpoint \<Rightarrow> Endpoint \<Rightarrow> bool" where
  "same_endpoint_spec e o' \<longleftrightarrow>
     ID e = ID o' \<and>
     ((PodName e = [] \<and> PodNamespace e = [] \<and> PodName o' = [] \<and> PodNamespace o' = []) \<or>
      (PodName e = PodName o' \<and> PodNamespace e = PodNamespace o'))"

text \<open>An endpoint whose pod name and namespace are both empty.\<close>

definition no_pod :: "Endpoint \<Rightarrow> bool" where
  "no_pod e \<longleftrightarrow> PodName e = [] \<and> PodNamespace e = []"

text \<open>
  \<^verbatim>\<open>func (e *Endpoint) SetFrom(o *Endpoint)\<close>: the value the receiver holds after the
  call. Each statement reads one field of \<^verbatim>\<open>o\<close> and writes the same field of \<^verbatim>\<open>e\<close>, so
  the six statements are six record updates in the order of the source.
\<close>

definition SetFrom :: "Endpoint \<Rightarrow> Endpoint \<Rightarrow> Endpoint" where
  "SetFrom e o' =
     (let e1 = (if ContainerIDs o' \<noteq> None then e\<lparr>ContainerIDs := ContainerIDs o'\<rparr> else e);
          e2 = (if ID o' \<noteq> 0 then e1\<lparr>ID := ID o'\<rparr> else e1);
          e3 = (if IPv4 o' \<noteq> None then e2\<lparr>IPv4 := IPv4 o'\<rparr> else e2);
          e4 = (if IPv6 o' \<noteq> None then e3\<lparr>IPv6 := IPv6 o'\<rparr> else e3);
          e5 = (if PodName o' \<noteq> [] then e4\<lparr>PodName := PodName o'\<rparr> else e4);
          e6 = (if PodNamespace o' \<noteq> [] then e5\<lparr>PodNamespace := PodNamespace o'\<rparr> else e5)
      in e6)"

subsection \<open>The endpoint table\<close>

text \<open>
  \<^verbatim>\<open>Endpoints\<close> holds a slice of pointers, \<^verbatim>\<open>eps []*Endpoint\<close>, and its methods write
  through them, so the endpoints live in an explicit heap: a pointer is an address, the
  heap maps an address to the struct stored there, and an address the heap does not map
  stands for \<^verbatim>\<open>nil\<close>. Reading a field through such a pointer panics in Go; a function
  of the model then returns \<open>None\<close>. The mutex of the struct is not modelled: every
  method holds it from its first statement to its return.
\<close>

type_synonym addr = nat
type_synonym heap = "addr \<rightharpoonup> Endpoint"

record Endpoints =
  eps :: "addr list"

text \<open>
  \<^verbatim>\<open>func (es *Endpoints) updateEndpoint(updateEp *Endpoint)\<close>. The first argument is what
  is left of \<^verbatim>\<open>es.eps\<close> in the \<^verbatim>\<open>for ... range\<close> loop; when the loop ends without its
  \<^verbatim>\<open>return\<close>, the pointer is appended to \<^verbatim>\<open>es.eps\<close>.
\<close>

fun updateEndpoint_loop :: "addr list \<Rightarrow> heap \<times> Endpoints \<Rightarrow> addr \<Rightarrow> (heap \<times> Endpoints) option" where
  "updateEndpoint_loop [] (h, es) updateEp = Some (h, es\<lparr>eps := eps es @ [updateEp]\<rparr>)"
| "updateEndpoint_loop (a # as) (h, es) updateEp =
     (case h a of
        None \<Rightarrow> None
      | Some ep \<Rightarrow>
          if Deleted ep \<noteq> None then updateEndpoint_loop as (h, es) updateEp
          else (case h updateEp of
                  None \<Rightarrow> None
                | Some o' \<Rightarrow>
                    if EqualsByID ep o' then Some (h(a \<mapsto> SetFrom ep o'), es)
                    else updateEndpoint_loop as (h, es) updateEp))"

definition updateEndpoint :: "heap \<times> Endpoints \<Rightarrow> addr \<Rightarrow> (heap \<times> Endpoints) option" where
  "updateEndpoint s updateEp = updateEndpoint_loop (eps (snd s)) s updateEp"

text \<open>\<^verbatim>\<open>func (es *Endpoints) UpdateEndpoint(updateEp *Endpoint)\<close>: the same, under the lock.\<close>

definition UpdateEndpoint :: "heap \<times> Endpoints \<Rightarrow> addr \<Rightarrow> (heap \<times> Endpoints) option" where
  "UpdateEndpoint s updateEp = updateEndpoint s updateEp"

text \<open>
  \<^verbatim>\<open>func (es *Endpoints) SyncEndpoints(newEps []*Endpoint)\<close>. Every call of
  \<^verbatim>\<open>time.Now()\<close> reads the clock: \<open>now k\<close> is the reading of the \<open>k\<close>-th call, and the
  state carries the number of calls made so far.

  The inner loop looks for an element of \<^verbatim>\<open>newEps\<close> that the tracked endpoint \<^verbatim>\<open>ep\<close>
  equals; \<^verbatim>\<open>ep\<close> has been read through its pointer before, and the heap does not change
  in this loop, so the receiver is passed as the value it holds.
\<close>

type_synonym clock = "nat \<Rightarrow> Time"

fun found_loop :: "heap \<Rightarrow> Endpoint \<Rightarrow> addr list \<Rightarrow> bool option" where
  "found_loop h ep [] = Some False"
| "found_loop h ep (u # us) =
     (case h u of
        None \<Rightarrow> None
      | Some updatedEp \<Rightarrow> if EqualsByID ep updatedEp then Some True else found_loop h ep us)"

fun mark_loop :: "clock \<Rightarrow> addr list \<Rightarrow> addr list \<Rightarrow> heap \<times> nat \<Rightarrow> (heap \<times> nat) option" where
  "mark_loop now newEps [] (h, n) = Some (h, n)"
| "mark_loop now newEps (a # as) (h, n) =
     (case h a of
        None \<Rightarrow> None
      | Some ep \<Rightarrow>
          if Deleted ep \<noteq> None then mark_loop now newEps as (h, n)
          else (case found_loop h ep newEps of
                  None \<Rightarrow> None
                | Some found \<Rightarrow>
                    if \<not> found
                    then mark_loop now newEps as (h(a \<mapsto> ep\<lparr>Deleted := Some (now n)\<rparr>), Suc n)
                    else mark_loop now newEps as (h, n)))"

fun update_loop :: "heap \<times> Endpoints \<Rightarrow> addr list \<Rightarrow> (heap \<times> Endpoints) option" where
  "update_loop s [] = Some s"
| "update_loop s (updatedEp # us) =
     (case updateEndpoint s updatedEp of
        None \<Rightarrow> None
      | Some s' \<Rightarrow> update_loop s' us)"

definition SyncEndpoints ::
  "clock \<Rightarrow> heap \<times> nat \<times> Endpoints \<Rightarrow> addr list \<Rightarrow> (heap \<times> nat \<times> Endpoints) option" where
  "SyncEndpoints now s newEps =
     (case s of
        (h, n, es) \<Rightarrow>
          if length newEps = 0 then Some (h, n, es)
          else (case mark_loop now newEps (eps es) (h, n) of
                  None \<Rightarrow> None
                | Some (h1, n1) \<Rightarrow>
                    (case update_loop (h1, es) newEps of
                       None \<Rightarrow> None
                     | Some (h2, es2) \<Rightarrow> Some (h2, n1, es2))))"

text \<open>
  \<^verbatim>\<open>func (es *Endpoints) FindEPs(epID uint64, namespace string, podName string) []Endpoint\<close>.
  The result holds copies of the structs; a \<^verbatim>\<open>nil\<close> result and an empty one are both
  \<open>[]\<close>.
\<close>

definition FindEPs_cond :: "Endpoint \<Rightarrow> 64 word \<Rightarrow> string \<Rightarrow> string \<Rightarrow> bool" where
  "FindEPs_cond ep epID namespace podName \<longleftrightarrow>
     (epID \<noteq> 0 \<and> ID ep = epID) \<or>
     (podName \<noteq> [] \<and> (PodName ep = podName \<and> PodNamespace ep = namespace)) \<or>
     (podName = [] \<and> PodNamespace ep = namespace)"

fun FindEPs_loop ::
  "heap \<Rightarrow> addr list \<Rightarrow> 64 word \<Rightarrow> string \<Rightarrow> string \<Rightarrow> Endpoint list \<Rightarrow> Endpoint list option" where
  "FindEPs_loop h [] epID namespace podName acc = Some acc"
| "FindEPs_loop h (a # as) epID namespace podName acc =
     (case h a of
        None \<Rightarrow> None
      | Some ep \<Rightarrow>
          if FindEPs_cond ep epID namespace podName
          then FindEPs_loop h as epID namespace podName (acc @ [ep])
          else FindEPs_loop h as epID namespace podName acc)"

definition FindEPs :: "heap \<times> Endpoints \<Rightarrow> 64 word \<Rightarrow> string \<Rightarrow> string \<Rightarrow> Endpoint list option" where
  "FindEPs s epID namespace podName = FindEPs_loop (fst s) (eps (snd s)) epID namespace podName []"

text \<open>
  \<^verbatim>\<open>func (ip IP) Equal(x IP) bool\<close> of Go's package \<^verbatim>\<open>net\<close>, which \<^verbatim>\<open>GetEndpoint\<close> calls:
  equal lengths compare bytewise, and a 4-byte address equals the 16-byte form that
  carries it behind the prefix of an IPv4-mapped address. A \<^verbatim>\<open>nil\<close> slice has length 0.
\<close>

definition v4InV6Prefix :: IP where
  "v4InV6Prefix = [0, 0, 0, 0, 0, 0, 0, 0, 0, 0, 0xff, 0xff]"

definition IP_bytes :: "IP option \<Rightarrow> IP" where
  "IP_bytes ip = (case ip of None \<Rightarrow> [] | Some bs \<Rightarrow> bs)"

definition IP_Equal :: "IP option \<Rightarrow> IP option \<Rightarrow> bool" where
  "IP_Equal ip x =
     (let a = IP_bytes ip; b = IP_bytes x in
      if length a = length b then a = b
      else if length a = 4 \<and> length b = 16 then take 12 b = v4InV6Prefix \<and> a = drop 12 b
      else if length a = 16 \<and> length b = 4 then take 12 a = v4InV6Prefix \<and> drop 12 a = b
      else False)"

text \<open>
  \<^verbatim>\<open>func (es *Endpoints) GetEndpoint(ip net.IP) (endpoint *Endpoint, ok bool)\<close>:
  \<open>Some (Some a)\<close> is the pointer \<open>a\<close> with \<^verbatim>\<open>ok = true\<close>, \<open>Some None\<close> is
  \<^verbatim>\<open>(nil, false)\<close>.
\<close>

fun GetEndpoint_loop :: "heap \<Rightarrow> addr list \<Rightarrow> IP option \<Rightarrow> addr option option" where
  "GetEndpoint_loop h [] ip = Some None"
| "GetEndpoint_loop h (a # as) ip =
     (case h a of
        None \<Rightarrow> None
      | Some ep \<Rightarrow>
          if IP_Equal (IPv4 ep) ip \<or> IP_Equal (IPv6 ep) ip then Some (Some a)
          else GetEndpoint_loop h as ip)"

definition GetEndpoint :: "heap \<times> Endpoints \<Rightarrow> IP option \<Rightarrow> addr option option" where
  "GetEndpoint s ip = GetEndpoint_loop (fst s) (eps (snd s)) ip"

text \<open>
  The words of the claims about the table: an address holds a live entry; a tracked
  endpoint matches an element of a list by id-equality.
\<close>

definition live :: "heap \<Rightarrow> addr \<Rightarrow> bool" where
  "live h a \<longleftrightarrow> (case h a of None \<Rightarrow> False | Some e \<Rightarrow> Deleted e = None)"

definition live_match :: "heap \<Rightarrow> addr \<Rightarrow> addr \<Rightarrow> bool" where
  "live_match h updateEp a \<longleftrightarrow>
     (case h a of
        None \<Rightarrow> False
      | Some e \<Rightarrow>
          (case h updateEp of
             None \<Rightarrow> False
           | Some o' \<Rightarrow> Deleted e = None \<and> EqualsByID e o'))"

definition matches_some :: "heap \<Rightarrow> addr list \<Rightarrow> Endpoint \<Rightarrow> bool" where
  "matches_some h newEps e \<longleftrightarrow>
     list_ex (\<lambda>u. case h u of None \<Rightarrow> False | Some o' \<Rightarrow> EqualsByID e o') newEps"

definition deleted_at :: "heap \<Rightarrow> addr \<Rightarrow> Time option option" where
  "deleted_at h a = map_option Deleted (h a)"

text \<open>
  The structs behind the tracked pointers, in insertion order; and an address whose
  endpoint has the given IP, as \<^verbatim>\<open>GetEndpoint\<close> tests it.
\<close>

definition tracked :: "heap \<Rightarrow> Endpoints \<Rightarrow> Endpoint list" where
  "tracked h es = List.map_filter h (eps es)"

definition has_ip :: "heap \<Rightarrow> IP option \<Rightarrow> addr \<Rightarrow> bool" where
  "has_ip h ip a \<longleftrightarrow>
     (case h a of None \<Rightarrow> False | Some e \<Rightarrow> IP_Equal (IPv4 e) ip \<or> IP_Equal (IPv6 e) ip)"

subsection \<open>HTTP records\<close>

text \<open>
  Modelled from the spec: the declaration of the generated struct \<^verbatim>\<open>pb.HTTP\<close> is not in
  the sources. Section 3 of the specification gives an HTTP record the attributes code,
  method, url and protocol; \<^verbatim>\<open>http.go\<close> reads the fields \<^verbatim>\<open>Code\<close>, \<^verbatim>\<open>Method\<close>, \<^verbatim>\<open>Url\<close>
  and \<^verbatim>\<open>Protocol\<close>. The record is extensible: every statement below is about
  \<open>'a HTTP_scheme\<close>, a record with these four fields and any others.
\<close>

record HTTP =
  Code :: "32 word"
  Method :: string
  Url :: string
  Protocol :: string

text \<open>\<^verbatim>\<open>func LooseCompareHTTP(a, b *pb.HTTP) bool\<close>, on the values the pointers hold.\<close>

definition LooseCompareHTTP :: "'a HTTP_scheme \<Rightarrow> 'b HTTP_scheme \<Rightarrow> bool" where
  "LooseCompareHTTP a b \<longleftrightarrow>
     Code a = Code b \<and> Method a = Method b \<and> Url a = Url b \<and> Protocol a = Protocol b"

subsection \<open>CIDR labels\<close>

text \<open>
  Modelled from the spec: \<^verbatim>\<open>filterCidrLabels\<close> is not in the sources, only its test
  \<^verbatim>\<open>Test_filterCidrLabels\<close> is. Section 4.D of the specification: of the labels of the
  form \<^verbatim>\<open>cidr:<ip>/<prefix>\<close> keep only the most specific one (largest prefix length)
  and drop all other labels prefixed \<^verbatim>\<open>cidr:\<close>; labels without the prefix pass through
  unchanged. The test fixes the place of the label that is kept: after the other labels.
  The prefix length of a label is the decimal number after its \<^verbatim>\<open>/\<close>; a label prefixed
  \<^verbatim>\<open>cidr:\<close> without one is not of the form and is dropped. Of two labels with the
  largest prefix length the first is kept.
\<close>

text \<open>
  Modelled from the spec: a label prefixed \<^verbatim>\<open>cidr:\<close>, and the prefix length of a label of
  the form \<^verbatim>\<open>cidr:<ip>/<prefix>\<close>.
\<close>

definition hasCidrPrefix :: "string \<Rightarrow> bool" where
  "hasCidrPrefix label \<longleftrightarrow> prefix ''cidr:'' label"

definition is_digit :: "char \<Rightarrow> bool" where
  "is_digit c \<longleftrightarrow> c \<in> set ''0123456789''"

fun parse_decimal_from :: "nat \<Rightarrow> string \<Rightarrow> nat option" where
  "parse_decimal_from acc [] = Some acc"
| "parse_decimal_from acc (c # cs) =
     (if is_digit c then parse_decimal_from (10 * acc + (of_char c - 48)) cs else None)"

definition parse_decimal :: "string \<Rightarrow> nat option" where
  "parse_decimal s = (if s = [] then None else parse_decimal_from 0 s)"

definition prefix_length :: "string \<Rightarrow> nat option" where
  "prefix_length label =
     (if hasCidrPrefix label
      then (case dropWhile (\<lambda>c. c \<noteq> CHR ''/'') label of
              [] \<Rightarrow> None
            | slash # digits \<Rightarrow> parse_decimal digits)
      else None)"

text \<open>
  Modelled from the spec: the most specific CIDR label of a list, with its prefix length
  (the first of those with the largest prefix length).
\<close>

fun most_specific :: "string list \<Rightarrow> (string \<times> nat) option" where
  "most_specific [] = None"
| "most_specific (label # labels) =
     (case prefix_length label of
        None \<Rightarrow> most_specific labels
      | Some n \<Rightarrow>
          (case most_specific labels of
             None \<Rightarrow> Some (label, n)
           | Some (m, k) \<Rightarrow> if n < k then Some (m, k) else Some (label, n)))"

text \<open>
  Modelled from the spec: \<^verbatim>\<open>func filterCidrLabels(labels []string) []string\<close>, the labels
  without the prefix in their order, then the most specific CIDR label if there is one.
\<close>

definition filterCidrLabels :: "string list \<Rightarrow> string list" where
  "filterCidrLabels labels =
     filter (\<lambda>label. \<not> hasCidrPrefix label) labels @
     (case most_specific labels of None \<Rightarrow> [] | Some (label, n) \<Rightarrow> [label])"

subsection \<open>IP cache\<close>

text \<open>
  Modelled from the spec: the package \<^verbatim>\<open>ipcache\<close> and the sync loop of the observer
  server are not in the sources, only the test \<^verbatim>\<open>TestObserverServer_syncIPCache\<close> is.
  Sections 3 and 4.C of the specification: the key is a CIDR (an address with a prefix
  length), the value an identity with optional pod metadata (an empty string is an
  attribute the entry does not carry; the source attribute, which no operation reads, is
  left out). An upsert whose old identity is present and does not match the stored
  identity is stale and changes nothing; otherwise the entry is stored. A delete removes
  the entry. Lookups by IP take the covering entry with the longest prefix.
\<close>

type_synonym CIDR = "IP \<times> nat"

record IPCacheEntry =
  Identity :: "32 word"
  Namespace :: string
  Pod :: string

type_synonym IPCache = "(CIDR \<times> IPCacheEntry) list"

text \<open>
  Modelled from the spec: \<^verbatim>\<open>Upsert(cidr, newIdentity, oldIdentity?, hostIP?, oldHostIP?,
  encryptKey, namespace, pod)\<close> of section 4.C. The call is stale, and a no-op, when
  \<^verbatim>\<open>oldIdentity\<close> is present and is not the identity stored for the CIDR.
\<close>

definition stored_identity :: "IPCache \<Rightarrow> CIDR \<Rightarrow> 32 word option" where
  "stored_identity c cidr = map_option Identity (map_of c cidr)"

definition Upsert ::
  "IPCache \<Rightarrow> CIDR \<Rightarrow> 32 word \<Rightarrow> 32 word option \<Rightarrow> IP option \<Rightarrow> IP option \<Rightarrow> 8 word \<Rightarrow> string \<Rightarrow> string \<Rightarrow> IPCache" where
  "Upsert c cidr newIdentity oldIdentity hostIP oldHostIP encryptKey namespace pod =
     (let stale = (case oldIdentity of None \<Rightarrow> False | Some old \<Rightarrow> stored_identity c cidr \<noteq> Some old)
      in if stale then c
         else AList.update cidr \<lparr>Identity = newIdentity, Namespace = namespace, Pod = pod\<rparr> c)"

text \<open>Modelled from the spec: \<^verbatim>\<open>Delete(cidr)\<close> removes the entry unconditionally.\<close>

definition Delete :: "IPCache \<Rightarrow> CIDR \<Rightarrow> IPCache" where
  "Delete c cidr = AList.delete cidr c"

text \<open>
  Modelled from the spec: the longest-prefix match of \<^verbatim>\<open>GetIdentityOf\<close> and
  \<^verbatim>\<open>GetPodNameOf\<close>. A CIDR covers an address of its length that agrees with it on the
  first prefix-length bits, most significant bit first.
\<close>

definition ip_bits :: "IP \<Rightarrow> bool list" where
  "ip_bits ip = concat (map (\<lambda>b. map (bit b) [7, 6, 5, 4, 3, 2, 1, 0]) ip)"

definition covers :: "CIDR \<Rightarrow> IP \<Rightarrow> bool" where
  "covers cidr ip \<longleftrightarrow>
     (case cidr of (a, n) \<Rightarrow>
        length a = length ip \<and> n \<le> 8 * length a \<and> take n (ip_bits a) = take n (ip_bits ip))"

fun longest_prefix_match :: "IPCache \<Rightarrow> IP \<Rightarrow> (CIDR \<times> IPCacheEntry) option" where
  "longest_prefix_match [] ip = None"
| "longest_prefix_match ((cidr, e) # c) ip =
     (if covers cidr ip
      then (case longest_prefix_match c ip of
              None \<Rightarrow> Some (cidr, e)
            | Some (cidr', e') \<Rightarrow> if snd cidr < snd cidr' then Some (cidr', e') else Some (cidr, e))
      else longest_prefix_match c ip)"

text \<open>
  Modelled from the spec: \<^verbatim>\<open>GetIdentityOf(ip)\<close> gives the identity of the most specific
  covering entry, or none; \<^verbatim>\<open>GetPodNameOf(ip)\<close> gives \<^verbatim>\<open>(namespace, pod, true)\<close> iff the
  matched entry carries both, and \<^verbatim>\<open>("", "", false)\<close> otherwise.
\<close>

definition GetIdentityOf :: "IPCache \<Rightarrow> IP \<Rightarrow> 32 word option" where
  "GetIdentityOf c ip = map_option (\<lambda>(cidr, e). Identity e) (longest_prefix_match c ip)"

definition GetPodNameOf :: "IPCache \<Rightarrow> IP \<Rightarrow> string \<times> string \<times> bool" where
  "GetPodNameOf c ip =
     (case longest_prefix_match c ip of
        None \<Rightarrow> ([], [], False)
      | Some (cidr, e) \<Rightarrow>
          if Namespace e \<noteq> [] \<and> Pod e \<noteq> [] then (Namespace e, Pod e, True) else ([], [], False))"

text \<open>
  Modelled from the spec: the notifications of the agent, parsed into the tuple of
  section 6 (CIDR, new identity, optional old identity, optional host IP, optional old
  host IP, encryption key, namespace, pod); the sync loop dispatches each one of the
  channel, in order, to \<^verbatim>\<open>Upsert\<close> or \<^verbatim>\<open>Delete\<close>, after the bootstrap has seeded the cache
  with the entries of the agent.
\<close>

datatype AgentNotify =
    IPCacheUpserted CIDR "32 word" "32 word option" "IP option" "IP option" "8 word" string string
  | IPCacheDeleted CIDR "32 word" "32 word option" "IP option" "IP option" "8 word" string string

fun dispatch :: "IPCache \<Rightarrow> AgentNotify \<Rightarrow> IPCache" where
  "dispatch c (IPCacheUpserted cidr newIdentity oldIdentity hostIP oldHostIP encryptKey namespace pod) =
     Upsert c cidr newIdentity oldIdentity hostIP oldHostIP encryptKey namespace pod"
| "dispatch c (IPCacheDeleted cidr newIdentity oldIdentity hostIP oldHostIP encryptKey namespace pod) =
     Delete c cidr"

definition bootstrap :: "(CIDR \<times> 32 word \<times> string \<times> string) list \<Rightarrow> IPCache" where
  "bootstrap entries =
     foldl (\<lambda>c (cidr, identity, namespace, pod). Upsert c cidr identity None None None 0 namespace pod)
       [] entries"

definition SyncLoop :: "IPCache \<Rightarrow> AgentNotify list \<Rightarrow> IPCache" where
  "SyncLoop c channel = foldl dispatch c channel"

text \<open>
  Scenario 5 of section 8 of the specification, with the values of the test: the
  bootstrap with four entries of identity 100, then the five notifications.
\<close>

definition scenario5 :: IPCache where
  "scenario5 =
     SyncLoop
       (bootstrap
          [(([1, 1, 1, 1], 32), 100, [], []),
           (([2, 2, 2, 2], 32), 100, [], []),
           (([3, 3, 3, 3], 32), 100, ''ns-3'', ''pod-3''),
           (([4, 4, 4, 4], 32), 100, [], [])])
       [IPCacheUpserted ([3, 3, 3, 3], 32) 100 (Some 200) None None 0 [] [],
        IPCacheDeleted ([2, 2, 2, 2], 32) 100 None None None 0 [] [],
        IPCacheUpserted ([2, 2, 2, 2], 32) 100 None None None 0 ''ns-2'' ''pod-2'',
        IPCacheUpserted ([1, 1, 1, 1], 32) 100 (Some 100) None None 0 ''ns-1'' ''pod-1'',
        IPCacheDeleted ([4, 4, 4, 4], 32) 100 None None None 0 [] []]"

subsection \<open>Trace events: the original source IP\<close>

text \<open>
  Modelled from the spec: the payload parser (\<^verbatim>\<open>Decode\<close>) is not in the sources, only its
  test \<^verbatim>\<open>TestTraceNotifyOriginalIP\<close> is. Section 4.D of the specification: the trace
  header has a version field; version 1 carries an original source IP (16 bytes,
  zero-filled when absent); unknown versions are an error, and so is a packet whose L3
  header cannot be decoded. When version 1 carries a non-zero original IP, it is
  substituted for the L3 source IP of the flow. The model takes the decoded header and
  the decoded L3 header of the embedded packet (\<open>None\<close> when it is malformed) and gives
  the IP part of the flow.
\<close>

text \<open>Modelled from the spec: the decode errors of section 4.D.\<close>

datatype decode_error = UnknownEventType | UnknownVersion | TruncatedHeader | MalformedPacket

text \<open>
  Modelled from the spec: of the decoded trace header, the version field and the
  original source IP (16 bytes); of the embedded packet, the L3 addresses; of the flow,
  its L3 part.
\<close>

record TraceNotify =
  Version :: nat
  OrigIP :: IP

record L3Header =
  SrcIP :: IP
  DstIP :: IP

record FlowIP =
  source :: IP
  destination :: IP

text \<open>
  Modelled from the spec: decoding a trace event, as far as the L3 addresses of the flow
  go. An original IP is zero when all its bytes are.
\<close>

definition is_zero_IP :: "IP \<Rightarrow> bool" where
  "is_zero_IP ip \<longleftrightarrow> list_all (\<lambda>b. b = 0) ip"

definition decode_trace :: "TraceNotify \<Rightarrow> L3Header option \<Rightarrow> decode_error + FlowIP" where
  "decode_trace tn l3 =
     (if Version tn \<noteq> 0 \<and> Version tn \<noteq> 1 then Inl UnknownVersion
      else (case l3 of
              None \<Rightarrow> Inl MalformedPacket
            | Some ip \<Rightarrow>
                Inr \<lparr>source = (if Version tn = 1 \<and> \<not> is_zero_IP (OrigIP tn) then OrigIP tn else SrcIP ip),
                     destination = DstIP ip\<rparr>))"

section \<open>Properties\<close>

subsection \<open>Endpoint equality\<close>

lemma EqualsByID_refl: "EqualsByID e e"
  by (simp add: EqualsByID_def)

text \<open>
  C1, as the claim states it, fails: \<^verbatim>\<open>EqualsByID\<close> is not symmetric and does not agree
  with the predicate of section 3. A tracked endpoint with id 1 and no pod name or
  namespace equals an endpoint with id 1, pod \<^verbatim>\<open>pod-1\<close> and namespace \<^verbatim>\<open>ns-1\<close>; the
  converse call returns false, and so does the predicate of section 3.
\<close>

theorem EqualsByID_not_symmetric:
  "EqualsByID (zero_Endpoint\<lparr>ID := 1\<rparr>)
     (zero_Endpoint\<lparr>ID := 1, PodName := ''pod-1'', PodNamespace := ''ns-1''\<rparr>) \<and>
   \<not> EqualsByID (zero_Endpoint\<lparr>ID := 1, PodName := ''pod-1'', PodNamespace := ''ns-1''\<rparr>)
     (zero_Endpoint\<lparr>ID := 1\<rparr>) \<and>
   \<not> same_endpoint_spec (zero_Endpoint\<lparr>ID := 1\<rparr>)
     (zero_Endpoint\<lparr>ID := 1, PodName := ''pod-1'', PodNamespace := ''ns-1''\<rparr>)"
  by (simp add: EqualsByID_def same_endpoint_spec_def zero_Endpoint_def)

text \<open>
  C1, amended: \<^verbatim>\<open>EqualsByID\<close> is reflexive; \<^verbatim>\<open>e.EqualsByID(o)\<close> is true iff the numeric
  ids match and either the receiver \<^verbatim>\<open>e\<close> has empty pod name and namespace or both pod
  name and namespace match. It agrees with the predicate of section 3, and is symmetric,
  on every pair of endpoints that both have, or both lack, an empty pod name and
  namespace; and the predicate of section 3 holds iff \<^verbatim>\<open>EqualsByID\<close> holds in both
  directions.
\<close>

theorem EqualsByID_receiver_rule:
  "EqualsByID e e \<and>
   (EqualsByID e o' \<longleftrightarrow>
      ID e = ID o' \<and>
      ((PodName e = [] \<and> PodNamespace e = []) \<or>
       (PodName e = PodName o' \<and> PodNamespace e = PodNamespace o'))) \<and>
   (no_pod e = no_pod o' \<longrightarrow>
      EqualsByID e o' = same_endpoint_spec e o' \<and> EqualsByID e o' = EqualsByID o' e) \<and>
   (same_endpoint_spec e o' \<longleftrightarrow> EqualsByID e o' \<and> EqualsByID o' e)"
proof -
  have "EqualsByID e e"
    by (rule EqualsByID_refl)
  moreover have "EqualsByID e o' \<longleftrightarrow>
      ID e = ID o' \<and>
      ((PodName e = [] \<and> PodNamespace e = []) \<or>
       (PodName e = PodName o' \<and> PodNamespace e = PodNamespace o'))"
    by (auto simp: EqualsByID_def)
  moreover have "no_pod e = no_pod o' \<longrightarrow>
      EqualsByID e o' = same_endpoint_spec e o' \<and> EqualsByID e o' = EqualsByID o' e"
    by (auto simp: EqualsByID_def same_endpoint_spec_def no_pod_def)
  moreover have "same_endpoint_spec e o' \<longleftrightarrow> EqualsByID e o' \<and> EqualsByID o' e"
    by (auto simp: EqualsByID_def same_endpoint_spec_def)
  ultimately show ?thesis
    by blast
qed

theorem EqualsByID_receiver_rule_witness:
  "no_pod (zero_Endpoint\<lparr>ID := 7, IPv4 := Some [10, 0, 0, 1]\<rparr>) =
     no_pod (zero_Endpoint\<lparr>ContainerIDs := Some [''c1''], ID := 7\<rparr>) \<and>
   EqualsByID (zero_Endpoint\<lparr>ID := 7, IPv4 := Some [10, 0, 0, 1]\<rparr>)
     (zero_Endpoint\<lparr>ContainerIDs := Some [''c1''], ID := 7\<rparr>) \<and>
   EqualsByID (zero_Endpoint\<lparr>ContainerIDs := Some [''c1''], ID := 7\<rparr>)
     (zero_Endpoint\<lparr>ID := 7, IPv4 := Some [10, 0, 0, 1]\<rparr>) \<and>
   same_endpoint_spec (zero_Endpoint\<lparr>ID := 7, IPv4 := Some [10, 0, 0, 1]\<rparr>)
     (zero_Endpoint\<lparr>ContainerIDs := Some [''c1''], ID := 7\<rparr>)"
  using EqualsByID_receiver_rule
    [of "zero_Endpoint\<lparr>ID := 7, IPv4 := Some [10, 0, 0, 1]\<rparr>"
        "zero_Endpoint\<lparr>ContainerIDs := Some [''c1''], ID := 7\<rparr>"]
  by (simp add: no_pod_def EqualsByID_def same_endpoint_spec_def zero_Endpoint_def)

subsection \<open>SetFrom\<close>

lemma SetFrom_self: "SetFrom e e = e"
  by (simp add: SetFrom_def Let_def)

lemma SetFrom_Deleted: "Deleted (SetFrom e o') = Deleted e"
  by (simp add: SetFrom_def Let_def)

text \<open>
  C5: \<^verbatim>\<open>SetFrom\<close> never modifies the time fields: after \<^verbatim>\<open>e.SetFrom(o)\<close> the fields
  \<^verbatim>\<open>Created\<close> and \<^verbatim>\<open>Deleted\<close> of \<^verbatim>\<open>e\<close> are what they were before the call.
\<close>

theorem SetFrom_keeps_time_fields:
  "Created (SetFrom e o') = Created e \<and> Deleted (SetFrom e o') = Deleted e"
  by (simp add: SetFrom_def Let_def)

text \<open>
  C10: \<^verbatim>\<open>SetFrom\<close> is a partial overwrite. A zero-valued field of \<^verbatim>\<open>o\<close> (\<^verbatim>\<open>nil\<close>
  \<^verbatim>\<open>ContainerIDs\<close>, \<^verbatim>\<open>ID == 0\<close>, \<^verbatim>\<open>nil\<close> \<^verbatim>\<open>IPv4\<close> or \<^verbatim>\<open>IPv6\<close>, empty \<^verbatim>\<open>PodName\<close> or
  \<^verbatim>\<open>PodNamespace\<close>) leaves the field of \<^verbatim>\<open>e\<close> unchanged; a non-zero one is copied into
  \<^verbatim>\<open>e\<close>. A \<^verbatim>\<open>nil\<close> \<^verbatim>\<open>Labels\<close> of \<^verbatim>\<open>o\<close> leaves the labels of \<^verbatim>\<open>e\<close> unchanged as well.
\<close>

theorem SetFrom_partial_overwrite:
  "(ContainerIDs o' = None \<longrightarrow> ContainerIDs (SetFrom e o') = ContainerIDs e) \<and>
   (ContainerIDs o' \<noteq> None \<longrightarrow> ContainerIDs (SetFrom e o') = ContainerIDs o') \<and>
   (ID o' = 0 \<longrightarrow> ID (SetFrom e o') = ID e) \<and>
   (ID o' \<noteq> 0 \<longrightarrow> ID (SetFrom e o') = ID o') \<and>
   (IPv4 o' = None \<longrightarrow> IPv4 (SetFrom e o') = IPv4 e) \<and>
   (IPv4 o' \<noteq> None \<longrightarrow> IPv4 (SetFrom e o') = IPv4 o') \<and>
   (IPv6 o' = None \<longrightarrow> IPv6 (SetFrom e o') = IPv6 e) \<and>
   (IPv6 o' \<noteq> None \<longrightarrow> IPv6 (SetFrom e o') = IPv6 o') \<and>
   (PodName o' = [] \<longrightarrow> PodName (SetFrom e o') = PodName e) \<and>
   (PodName o' \<noteq> [] \<longrightarrow> PodName (SetFrom e o') = PodName o') \<and>
   (PodNamespace o' = [] \<longrightarrow> PodNamespace (SetFrom e o') = PodNamespace e) \<and>
   (PodNamespace o' \<noteq> [] \<longrightarrow> PodNamespace (SetFrom e o') = PodNamespace o') \<and>
   (Labels o' = None \<longrightarrow> Labels (SetFrom e o') = Labels e)"
  by (simp add: SetFrom_def Let_def)

theorem SetFrom_partial_overwrite_witness:
  "ContainerIDs (zero_Endpoint\<lparr>IPv4 := Some [10, 0, 0, 2], PodName := ''xwing''\<rparr>) = None \<and>
   ContainerIDs (SetFrom (zero_Endpoint\<lparr>ContainerIDs := Some [''c1''], ID := 5, IPv4 := Some [10, 0, 0, 1],
                   PodNamespace := ''default''\<rparr>)
      (zero_Endpoint\<lparr>IPv4 := Some [10, 0, 0, 2], PodName := ''xwing''\<rparr>)) = Some [''c1''] \<and>
   ID (zero_Endpoint\<lparr>IPv4 := Some [10, 0, 0, 2], PodName := ''xwing''\<rparr>) = 0 \<and>
   ID (SetFrom (zero_Endpoint\<lparr>ContainerIDs := Some [''c1''], ID := 5, IPv4 := Some [10, 0, 0, 1],
                   PodNamespace := ''default''\<rparr>)
      (zero_Endpoint\<lparr>IPv4 := Some [10, 0, 0, 2], PodName := ''xwing''\<rparr>)) = 5 \<and>
   IPv4 (zero_Endpoint\<lparr>IPv4 := Some [10, 0, 0, 2], PodName := ''xwing''\<rparr>) \<noteq> None \<and>
   IPv4 (SetFrom (zero_Endpoint\<lparr>ContainerIDs := Some [''c1''], ID := 5, IPv4 := Some [10, 0, 0, 1],
                   PodNamespace := ''default''\<rparr>)
      (zero_Endpoint\<lparr>IPv4 := Some [10, 0, 0, 2], PodName := ''xwing''\<rparr>)) = Some [10, 0, 0, 2] \<and>
   IPv6 (zero_Endpoint\<lparr>IPv4 := Some [10, 0, 0, 2], PodName := ''xwing''\<rparr>) = None \<and>
   IPv6 (SetFrom (zero_Endpoint\<lparr>ContainerIDs := Some [''c1''], ID := 5, IPv4 := Some [10, 0, 0, 1],
                   PodNamespace := ''default''\<rparr>)
      (zero_Endpoint\<lparr>IPv4 := Some [10, 0, 0, 2], PodName := ''xwing''\<rparr>)) = None \<and>
   PodName (zero_Endpoint\<lparr>IPv4 := Some [10, 0, 0, 2], PodName := ''xwing''\<rparr>) \<noteq> [] \<and>
   PodName (SetFrom (zero_Endpoint\<lparr>ContainerIDs := Some [''c1''], ID := 5, IPv4 := Some [10, 0, 0, 1],
                   PodNamespace := ''default''\<rparr>)
      (zero_Endpoint\<lparr>IPv4 := Some [10, 0, 0, 2], PodName := ''xwing''\<rparr>)) = ''xwing'' \<and>
   PodNamespace (zero_Endpoint\<lparr>IPv4 := Some [10, 0, 0, 2], PodName := ''xwing''\<rparr>) = [] \<and>
   PodNamespace (SetFrom (zero_Endpoint\<lparr>ContainerIDs := Some [''c1''], ID := 5, IPv4 := Some [10, 0, 0, 1],
                   PodNamespace := ''default''\<rparr>)
      (zero_Endpoint\<lparr>IPv4 := Some [10, 0, 0, 2], PodName := ''xwing''\<rparr>)) = ''default''"
  using SetFrom_partial_overwrite
    [of "zero_Endpoint\<lparr>IPv4 := Some [10, 0, 0, 2], PodName := ''xwing''\<rparr>"
        "zero_Endpoint\<lparr>ContainerIDs := Some [''c1''], ID := 5, IPv4 := Some [10, 0, 0, 1],
           PodNamespace := ''default''\<rparr>"]
  by (simp add: zero_Endpoint_def)

subsection \<open>Loose comparison of HTTP records\<close>

text \<open>
  C9: \<^verbatim>\<open>LooseCompareHTTP(a, b)\<close> is true iff \<^verbatim>\<open>Code\<close>, \<^verbatim>\<open>Method\<close>, \<^verbatim>\<open>Url\<close> and
  \<^verbatim>\<open>Protocol\<close> of the two records are equal; so it is reflexive, symmetric and
  transitive.
\<close>

theorem LooseCompareHTTP_equivalence:
  "(LooseCompareHTTP a b \<longleftrightarrow>
      Code a = Code b \<and> Method a = Method b \<and> Url a = Url b \<and> Protocol a = Protocol b) \<and>
   LooseCompareHTTP a a \<and>
   (LooseCompareHTTP a b \<longrightarrow> LooseCompareHTTP b a) \<and>
   (LooseCompareHTTP a b \<and> LooseCompareHTTP b c \<longrightarrow> LooseCompareHTTP a c)"
  by (auto simp: LooseCompareHTTP_def)

theorem LooseCompareHTTP_equivalence_witness:
  "LooseCompareHTTP \<lparr>Code = 200, Method = ''GET'', Url = ''/index'', Protocol = ''HTTP/1.1''\<rparr>
     \<lparr>Code = 200, Method = ''GET'', Url = ''/index'', Protocol = ''HTTP/1.1''\<rparr> \<and>
   \<not> LooseCompareHTTP \<lparr>Code = 200, Method = ''GET'', Url = ''/index'', Protocol = ''HTTP/1.1''\<rparr>
     \<lparr>Code = 404, Method = ''GET'', Url = ''/index'', Protocol = ''HTTP/1.1''\<rparr>"
  using LooseCompareHTTP_equivalence
    [of "\<lparr>Code = 200, Method = ''GET'', Url = ''/index'', Protocol = ''HTTP/1.1''\<rparr>"
        "\<lparr>Code = 200, Method = ''GET'', Url = ''/index'', Protocol = ''HTTP/1.1''\<rparr>"
        "\<lparr>Code = 200, Method = ''GET'', Url = ''/index'', Protocol = ''HTTP/1.1''\<rparr>"]
  by (simp add: LooseCompareHTTP_def)

subsection \<open>The endpoint table: lookups\<close>

lemma FindEPs_loop_filter:
  "set as \<subseteq> dom h \<Longrightarrow>
   FindEPs_loop h as epID ns pod acc =
     Some (acc @ filter (\<lambda>e. FindEPs_cond e epID ns pod) (List.map_filter h as))"
  by (induction as arbitrary: acc) (auto simp: List.map_filter_simps split: option.splits)

lemma GetEndpoint_loop_find:
  "set as \<subseteq> dom h \<Longrightarrow> GetEndpoint_loop h as ip = Some (find (has_ip h ip) as)"
  by (induction as) (auto simp: has_ip_def split: option.splits)

lemma tracked_live:
  "\<forall>a\<in>set as. live h a \<Longrightarrow> e \<in> set (List.map_filter h as) \<Longrightarrow> Deleted e = None"
  by (induction as) (auto simp: List.map_filter_simps live_def split: option.splits)

text \<open>
  C2, as the claim states it, fails: neither \<^verbatim>\<open>FindEPs\<close> nor \<^verbatim>\<open>GetEndpoint\<close> reads
  \<^verbatim>\<open>Deleted\<close>. In a table whose only entry is a tombstone (id 1, IPv4 10.0.0.1, deleted at
  time 5), \<^verbatim>\<open>FindEPs(1, "", "")\<close> returns that entry and \<^verbatim>\<open>GetEndpoint(10.0.0.1)\<close> returns
  its pointer.
\<close>

theorem lookups_return_tombstone:
  "FindEPs ([0 \<mapsto> zero_Endpoint\<lparr>Deleted := Some 5, ID := 1, IPv4 := Some [10, 0, 0, 1]\<rparr>],
            \<lparr>eps = [0]\<rparr>) 1 [] [] =
     Some [zero_Endpoint\<lparr>Deleted := Some 5, ID := 1, IPv4 := Some [10, 0, 0, 1]\<rparr>] \<and>
   GetEndpoint ([0 \<mapsto> zero_Endpoint\<lparr>Deleted := Some 5, ID := 1, IPv4 := Some [10, 0, 0, 1]\<rparr>],
            \<lparr>eps = [0]\<rparr>) (Some [10, 0, 0, 1]) = Some (Some 0) \<and>
   \<not> live [0 \<mapsto> zero_Endpoint\<lparr>Deleted := Some 5, ID := 1, IPv4 := Some [10, 0, 0, 1]\<rparr>] 0 \<and>
   Deleted (zero_Endpoint\<lparr>Deleted := Some 5, ID := 1, IPv4 := Some [10, 0, 0, 1]\<rparr>) = Some 5"
  by (simp add: FindEPs_def GetEndpoint_def FindEPs_cond_def IP_Equal_def IP_bytes_def live_def
      zero_Endpoint_def)

text \<open>
  C2, amended: lookups do not skip tombstones. In a table without \<^verbatim>\<open>nil\<close> pointers,
  \<^verbatim>\<open>FindEPs\<close> returns, in insertion order, every tracked entry, live or tombstoned, that
  satisfies its condition on id, namespace and pod name, and \<^verbatim>\<open>GetEndpoint\<close> returns the
  first tracked entry, live or tombstoned, whose IPv4 or IPv6 equals the given IP. So
  every endpoint they return is live when the table holds no tombstone.
\<close>

theorem lookups_do_not_skip_tombstones:
  assumes "set (eps es) \<subseteq> dom h"
  shows "FindEPs (h, es) epID namespace podName =
           Some (filter (\<lambda>e. FindEPs_cond e epID namespace podName) (tracked h es)) \<and>
         GetEndpoint (h, es) ip = Some (find (has_ip h ip) (eps es)) \<and>
         ((\<forall>a\<in>set (eps es). live h a) \<longrightarrow>
            (\<forall>e\<in>set (filter (\<lambda>e. FindEPs_cond e epID namespace podName) (tracked h es)).
               Deleted e = None) \<and>
            (\<forall>a. find (has_ip h ip) (eps es) = Some a \<longrightarrow> live h a))"
proof -
  have f: "FindEPs (h, es) epID namespace podName =
           Some (filter (\<lambda>e. FindEPs_cond e epID namespace podName) (tracked h es))"
    using FindEPs_loop_filter [OF assms, of epID namespace podName "[]"]
    by (simp add: FindEPs_def tracked_def)
  have g: "GetEndpoint (h, es) ip = Some (find (has_ip h ip) (eps es))"
    using GetEndpoint_loop_find [OF assms] by (simp add: GetEndpoint_def)
  have l: "(\<forall>a\<in>set (eps es). live h a) \<longrightarrow>
            (\<forall>e\<in>set (filter (\<lambda>e. FindEPs_cond e epID namespace podName) (tracked h es)).
               Deleted e = None) \<and>
            (\<forall>a. find (has_ip h ip) (eps es) = Some a \<longrightarrow> live h a)"
    by (auto simp: tracked_def find_Some_iff dest: tracked_live)
  from f g l show ?thesis by blast
qed

theorem lookups_do_not_skip_tombstones_witness:
  "set (eps \<lparr>eps = [0, 1]\<rparr>) \<subseteq>
     dom [0 \<mapsto> zero_Endpoint\<lparr>ID := 1, IPv4 := Some [10, 0, 0, 1]\<rparr>,
          1 \<mapsto> zero_Endpoint\<lparr>ID := 2, PodName := ''xwing'', PodNamespace := ''default''\<rparr>] \<and>
   live [0 \<mapsto> zero_Endpoint\<lparr>ID := 1, IPv4 := Some [10, 0, 0, 1]\<rparr>,
         1 \<mapsto> zero_Endpoint\<lparr>ID := 2, PodName := ''xwing'', PodNamespace := ''default''\<rparr>] 0 \<and>
   live [0 \<mapsto> zero_Endpoint\<lparr>ID := 1, IPv4 := Some [10, 0, 0, 1]\<rparr>,
         1 \<mapsto> zero_Endpoint\<lparr>ID := 2, PodName := ''xwing'', PodNamespace := ''default''\<rparr>] 1 \<and>
   FindEPs ([0 \<mapsto> zero_Endpoint\<lparr>ID := 1, IPv4 := Some [10, 0, 0, 1]\<rparr>,
             1 \<mapsto> zero_Endpoint\<lparr>ID := 2, PodName := ''xwing'', PodNamespace := ''default''\<rparr>],
            \<lparr>eps = [0, 1]\<rparr>) 0 ''default'' ''xwing'' =
     Some [zero_Endpoint\<lparr>ID := 2, PodName := ''xwing'', PodNamespace := ''default''\<rparr>] \<and>
   GetEndpoint ([0 \<mapsto> zero_Endpoint\<lparr>ID := 1, IPv4 := Some [10, 0, 0, 1]\<rparr>,
                 1 \<mapsto> zero_Endpoint\<lparr>ID := 2, PodName := ''xwing'', PodNamespace := ''default''\<rparr>],
                \<lparr>eps = [0, 1]\<rparr>) (Some [10, 0, 0, 1]) = Some (Some 0)"
  using lookups_do_not_skip_tombstones
    [of "\<lparr>eps = [0, 1]\<rparr>"
        "[0 \<mapsto> zero_Endpoint\<lparr>ID := 1, IPv4 := Some [10, 0, 0, 1]\<rparr>,
          1 \<mapsto> zero_Endpoint\<lparr>ID := 2, PodName := ''xwing'', PodNamespace := ''default''\<rparr>]"
        0 "''default''" "''xwing''" "Some [10, 0, 0, 1]"]
  by (simp add: FindEPs_def GetEndpoint_def FindEPs_cond_def IP_Equal_def IP_bytes_def live_def
      zero_Endpoint_def)

subsection \<open>The endpoint table: Update\<close>

lemma updateEndpoint_loop_no_match:
  "set as \<subseteq> dom h \<Longrightarrow> h u = Some o' \<Longrightarrow> \<forall>a\<in>set as. \<not> live_match h u a \<Longrightarrow>
   updateEndpoint_loop as (h, es) u = Some (h, es\<lparr>eps := eps es @ [u]\<rparr>)"
  by (induction as) (auto simp: live_match_def split: option.splits)

lemma updateEndpoint_loop_first_match:
  "set pre \<subseteq> dom h \<Longrightarrow> h u = Some o' \<Longrightarrow> \<forall>b\<in>set pre. \<not> live_match h u b \<Longrightarrow>
   live_match h u a \<Longrightarrow> h a = Some e \<Longrightarrow>
   updateEndpoint_loop (pre @ a # post) (h, es) u = Some (h(a \<mapsto> SetFrom e o'), es)"
  by (induction pre) (auto simp: live_match_def split: option.splits)

lemma updateEndpoint_loop_ok:
  assumes "set as \<subseteq> dom h" and "u \<in> dom h"
  shows "\<exists>h' es'. updateEndpoint_loop as (h, es) u = Some (h', es') \<and> dom h' = dom h \<and>
     (\<forall>a. deleted_at h' a = deleted_at h a) \<and>
     (eps es' = eps es \<or> eps es' = eps es @ [u])"
  using assms
proof (induction as)
  case Nil
  then show ?case by simp
next
  case (Cons a as)
  then show ?case
    by (auto simp: deleted_at_def SetFrom_Deleted split: option.splits)
qed

lemma updateEndpoint_ok:
  assumes "set (eps es) \<subseteq> dom h" and "u \<in> dom h"
  shows "\<exists>h' es'. updateEndpoint (h, es) u = Some (h', es') \<and> dom h' = dom h \<and>
     (\<forall>a. deleted_at h' a = deleted_at h a) \<and>
     (eps es' = eps es \<or> eps es' = eps es @ [u])"
  using updateEndpoint_loop_ok [OF assms, of es] by (simp add: updateEndpoint_def)

lemma live_match_SetFrom:
  assumes "live_match h updateEp a" and "h a = Some e" and "h updateEp = Some o'"
  shows "ID (SetFrom e o') = ID o' \<and> PodName (SetFrom e o') = PodName o' \<and>
         PodNamespace (SetFrom e o') = PodNamespace o'"
  using assms by (auto simp: live_match_def EqualsByID_def SetFrom_def Let_def)

lemma SetFrom_guarded_slices:
  "ContainerIDs (SetFrom e o') = (if ContainerIDs o' = None then ContainerIDs e else ContainerIDs o') \<and>
   IPv4 (SetFrom e o') = (if IPv4 o' = None then IPv4 e else IPv4 o') \<and>
   IPv6 (SetFrom e o') = (if IPv6 o' = None then IPv6 e else IPv6 o') \<and>
   Created (SetFrom e o') = Created e \<and> Deleted (SetFrom e o') = Deleted e"
  by (simp add: SetFrom_def Let_def)

text \<open>
  C4, as the claim states it, fails in both branches, each time by what the code is
  written to do. In the matching branch a \<^verbatim>\<open>nil\<close> field of \<^verbatim>\<open>ep\<close> does not overwrite the
  field of the entry (the guards of \<^verbatim>\<open>SetFrom\<close>): a live entry with id 3 and IPv4 10.0.0.1,
  updated with an endpoint with id 3, pod name \<^verbatim>\<open>xwing\<close> and no IPv4, keeps its IPv4. In
  the other branch \<^verbatim>\<open>updateEndpoint\<close> appends the pointer it was given, whatever its
  \<^verbatim>\<open>Deleted\<close> field holds: updating an empty table with an endpoint that carries a
  deleted-at of 5 appends a tombstone.
\<close>

theorem UpdateEndpoint_keeps_nil_fields_and_appends_tombstone:
  "live_match [1 \<mapsto> zero_Endpoint\<lparr>ID := 3, IPv4 := Some [10, 0, 0, 1]\<rparr>,
               2 \<mapsto> zero_Endpoint\<lparr>ID := 3, PodName := ''xwing''\<rparr>] 2 1 \<and>
   IPv4 (zero_Endpoint\<lparr>ID := 3, PodName := ''xwing''\<rparr>) = None \<and>
   map_option (\<lambda>(h, es). (map_option IPv4 (h 1), map_option PodName (h 1), eps es))
     (UpdateEndpoint
        ([1 \<mapsto> zero_Endpoint\<lparr>ID := 3, IPv4 := Some [10, 0, 0, 1]\<rparr>,
          2 \<mapsto> zero_Endpoint\<lparr>ID := 3, PodName := ''xwing''\<rparr>], \<lparr>eps = [1]\<rparr>) 2) =
     Some (Some (Some [10, 0, 0, 1]), Some ''xwing'', [1]) \<and>
   UpdateEndpoint ([0 \<mapsto> zero_Endpoint\<lparr>Deleted := Some 5, ID := 1\<rparr>], \<lparr>eps = []\<rparr>) 0 =
     Some ([0 \<mapsto> zero_Endpoint\<lparr>Deleted := Some 5, ID := 1\<rparr>], \<lparr>eps = [0]\<rparr>) \<and>
   \<not> live [0 \<mapsto> zero_Endpoint\<lparr>Deleted := Some 5, ID := 1\<rparr>] 0"
  by (simp add: UpdateEndpoint_def updateEndpoint_def live_def live_match_def EqualsByID_def
      SetFrom_def zero_Endpoint_def)

text \<open>
  C4, amended: in a table without \<^verbatim>\<open>nil\<close> pointers, \<^verbatim>\<open>UpdateEndpoint(ep)\<close> looks for the
  first live entry that equals \<^verbatim>\<open>ep\<close> by \<^verbatim>\<open>EqualsByID\<close>, skipping tombstones. If there is
  one, only that entry changes: it ends with the id, pod name and namespace of \<^verbatim>\<open>ep\<close>; its
  container ids, IPv4 and IPv6 are overwritten from \<^verbatim>\<open>ep\<close> where the field of \<^verbatim>\<open>ep\<close> is
  not \<^verbatim>\<open>nil\<close> and kept where it is; its created-at and deleted-at are kept; no other
  endpoint changes and the list of entries is the same (no append). If no live entry
  matches, the heap is unchanged and \<^verbatim>\<open>ep\<close> is appended as it is: the new entry is live
  exactly when \<^verbatim>\<open>ep\<close> carries no deleted-at.
\<close>

theorem updateEndpoint_first_live_match:
  assumes "set (eps es) \<subseteq> dom h" and "h updateEp = Some o'"
  shows "(\<forall>pre a post e.
            eps es = pre @ a # post \<and> (\<forall>b\<in>set pre. \<not> live_match h updateEp b) \<and>
            live_match h updateEp a \<and> h a = Some e \<longrightarrow>
            (\<exists>e'. UpdateEndpoint (h, es) updateEp = Some (h(a \<mapsto> e'), es) \<and>
                  ID e' = ID o' \<and> PodName e' = PodName o' \<and> PodNamespace e' = PodNamespace o' \<and>
                  ContainerIDs e' = (if ContainerIDs o' = None then ContainerIDs e else ContainerIDs o') \<and>
                  IPv4 e' = (if IPv4 o' = None then IPv4 e else IPv4 o') \<and>
                  IPv6 e' = (if IPv6 o' = None then IPv6 e else IPv6 o') \<and>
                  Created e' = Created e \<and> Deleted e' = Deleted e)) \<and>
         ((\<forall>a\<in>set (eps es). \<not> live_match h updateEp a) \<longrightarrow>
            UpdateEndpoint (h, es) updateEp = Some (h, es\<lparr>eps := eps es @ [updateEp]\<rparr>) \<and>
            live h updateEp = (Deleted o' = None))"
proof (intro conjI allI impI)
  fix pre a post e
  assume a: "eps es = pre @ a # post \<and> (\<forall>b\<in>set pre. \<not> live_match h updateEp b) \<and>
            live_match h updateEp a \<and> h a = Some e"
  with assms(1) have "set pre \<subseteq> dom h" by simp
  from updateEndpoint_loop_first_match [OF this assms(2), of a e post es] a
  have u: "UpdateEndpoint (h, es) updateEp = Some (h(a \<mapsto> SetFrom e o'), es)"
    by (simp add: UpdateEndpoint_def updateEndpoint_def)
  from a assms(2) have i: "ID (SetFrom e o') = ID o' \<and> PodName (SetFrom e o') = PodName o' \<and>
         PodNamespace (SetFrom e o') = PodNamespace o'"
    by (intro live_match_SetFrom [of h updateEp a]) simp_all
  from u i SetFrom_guarded_slices [of e o']
  show "\<exists>e'. UpdateEndpoint (h, es) updateEp = Some (h(a \<mapsto> e'), es) \<and>
                  ID e' = ID o' \<and> PodName e' = PodName o' \<and> PodNamespace e' = PodNamespace o' \<and>
                  ContainerIDs e' = (if ContainerIDs o' = None then ContainerIDs e else ContainerIDs o') \<and>
                  IPv4 e' = (if IPv4 o' = None then IPv4 e else IPv4 o') \<and>
                  IPv6 e' = (if IPv6 o' = None then IPv6 e else IPv6 o') \<and>
                  Created e' = Created e \<and> Deleted e' = Deleted e"
    by (intro exI [of _ "SetFrom e o'"]) simp
next
  assume n: "\<forall>a\<in>set (eps es). \<not> live_match h updateEp a"
  from updateEndpoint_loop_no_match [OF assms n]
  show "UpdateEndpoint (h, es) updateEp = Some (h, es\<lparr>eps := eps es @ [updateEp]\<rparr>)"
    by (simp add: UpdateEndpoint_def updateEndpoint_def)
  show "live h updateEp = (Deleted o' = None)"
    using assms(2) by (simp add: live_def)
qed

theorem updateEndpoint_first_live_match_witness:
  "set (eps \<lparr>eps = [0, 1]\<rparr>) \<subseteq>
     dom [0 \<mapsto> zero_Endpoint\<lparr>Deleted := Some 5, ID := 3\<rparr>,
          1 \<mapsto> zero_Endpoint\<lparr>Created := 7, ID := 3, IPv4 := Some [10, 0, 0, 1]\<rparr>,
          2 \<mapsto> zero_Endpoint\<lparr>ID := 3, IPv6 := Some [0, 0, 0, 0, 0, 0, 0, 0, 0, 0, 0, 0, 0, 0, 0, 1],
                 PodName := ''xwing''\<rparr>,
          3 \<mapsto> zero_Endpoint\<lparr>ID := 4\<rparr>] \<and>
   \<not> live_match [0 \<mapsto> zero_Endpoint\<lparr>Deleted := Some 5, ID := 3\<rparr>,
          1 \<mapsto> zero_Endpoint\<lparr>Created := 7, ID := 3, IPv4 := Some [10, 0, 0, 1]\<rparr>,
          2 \<mapsto> zero_Endpoint\<lparr>ID := 3, IPv6 := Some [0, 0, 0, 0, 0, 0, 0, 0, 0, 0, 0, 0, 0, 0, 0, 1],
                 PodName := ''xwing''\<rparr>,
          3 \<mapsto> zero_Endpoint\<lparr>ID := 4\<rparr>] 2 0 \<and>
   live_match [0 \<mapsto> zero_Endpoint\<lparr>Deleted := Some 5, ID := 3\<rparr>,
          1 \<mapsto> zero_Endpoint\<lparr>Created := 7, ID := 3, IPv4 := Some [10, 0, 0, 1]\<rparr>,
          2 \<mapsto> zero_Endpoint\<lparr>ID := 3, IPv6 := Some [0, 0, 0, 0, 0, 0, 0, 0, 0, 0, 0, 0, 0, 0, 0, 1],
                 PodName := ''xwing''\<rparr>,
          3 \<mapsto> zero_Endpoint\<lparr>ID := 4\<rparr>] 2 1 \<and>
   map_option
     (\<lambda>(h, es). (h 0, map_option ID (h 1), map_option PodName (h 1), map_option PodNamespace (h 1),
        map_option ContainerIDs (h 1), map_option IPv4 (h 1), map_option IPv6 (h 1),
        map_option Created (h 1), map_option Deleted (h 1), h 3, eps es))
     (UpdateEndpoint
        ([0 \<mapsto> zero_Endpoint\<lparr>Deleted := Some 5, ID := 3\<rparr>,
          1 \<mapsto> zero_Endpoint\<lparr>Created := 7, ID := 3, IPv4 := Some [10, 0, 0, 1]\<rparr>,
          2 \<mapsto> zero_Endpoint\<lparr>ID := 3, IPv6 := Some [0, 0, 0, 0, 0, 0, 0, 0, 0, 0, 0, 0, 0, 0, 0, 1],
                 PodName := ''xwing''\<rparr>,
          3 \<mapsto> zero_Endpoint\<lparr>ID := 4\<rparr>],
         \<lparr>eps = [0, 1]\<rparr>) 2) =
     Some (Some (zero_Endpoint\<lparr>Deleted := Some 5, ID := 3\<rparr>), Some 3, Some ''xwing'', Some [],
           Some None, Some (Some [10, 0, 0, 1]),
           Some (Some [0, 0, 0, 0, 0, 0, 0, 0, 0, 0, 0, 0, 0, 0, 0, 1]), Some 7, Some None,
           Some (zero_Endpoint\<lparr>ID := 4\<rparr>), [0, 1]) \<and>
   \<not> live_match [0 \<mapsto> zero_Endpoint\<lparr>Deleted := Some 5, ID := 3\<rparr>,
          1 \<mapsto> zero_Endpoint\<lparr>Created := 7, ID := 3, IPv4 := Some [10, 0, 0, 1]\<rparr>,
          2 \<mapsto> zero_Endpoint\<lparr>ID := 3, IPv6 := Some [0, 0, 0, 0, 0, 0, 0, 0, 0, 0, 0, 0, 0, 0, 0, 1],
                 PodName := ''xwing''\<rparr>,
          3 \<mapsto> zero_Endpoint\<lparr>ID := 4\<rparr>] 3 0 \<and>
   \<not> live_match [0 \<mapsto> zero_Endpoint\<lparr>Deleted := Some 5, ID := 3\<rparr>,
          1 \<mapsto> zero_Endpoint\<lparr>Created := 7, ID := 3, IPv4 := Some [10, 0, 0, 1]\<rparr>,
          2 \<mapsto> zero_Endpoint\<lparr>ID := 3, IPv6 := Some [0, 0, 0, 0, 0, 0, 0, 0, 0, 0, 0, 0, 0, 0, 0, 1],
                 PodName := ''xwing''\<rparr>,
          3 \<mapsto> zero_Endpoint\<lparr>ID := 4\<rparr>] 3 1 \<and>
   map_option (\<lambda>(h, es). (h 0, h 1, h 3, eps es))
     (UpdateEndpoint
        ([0 \<mapsto> zero_Endpoint\<lparr>Deleted := Some 5, ID := 3\<rparr>,
          1 \<mapsto> zero_Endpoint\<lparr>Created := 7, ID := 3, IPv4 := Some [10, 0, 0, 1]\<rparr>,
          2 \<mapsto> zero_Endpoint\<lparr>ID := 3, IPv6 := Some [0, 0, 0, 0, 0, 0, 0, 0, 0, 0, 0, 0, 0, 0, 0, 1],
                 PodName := ''xwing''\<rparr>,
          3 \<mapsto> zero_Endpoint\<lparr>ID := 4\<rparr>],
         \<lparr>eps = [0, 1]\<rparr>) 3) =
     Some (Some (zero_Endpoint\<lparr>Deleted := Some 5, ID := 3\<rparr>),
           Some (zero_Endpoint\<lparr>Created := 7, ID := 3, IPv4 := Some [10, 0, 0, 1]\<rparr>),
           Some (zero_Endpoint\<lparr>ID := 4\<rparr>), [0, 1, 3])"
  using updateEndpoint_first_live_match
    [of "\<lparr>eps = [0, 1]\<rparr>"
        "[0 \<mapsto> zero_Endpoint\<lparr>Deleted := Some 5, ID := 3\<rparr>,
          1 \<mapsto> zero_Endpoint\<lparr>Created := 7, ID := 3, IPv4 := Some [10, 0, 0, 1]\<rparr>,
          2 \<mapsto> zero_Endpoint\<lparr>ID := 3, IPv6 := Some [0, 0, 0, 0, 0, 0, 0, 0, 0, 0, 0, 0, 0, 0, 0, 1],
                 PodName := ''xwing''\<rparr>,
          3 \<mapsto> zero_Endpoint\<lparr>ID := 4\<rparr>]"
        2 "zero_Endpoint\<lparr>ID := 3, IPv6 := Some [0, 0, 0, 0, 0, 0, 0, 0, 0, 0, 0, 0, 0, 0, 0, 1],
                 PodName := ''xwing''\<rparr>"]
    updateEndpoint_first_live_match
    [of "\<lparr>eps = [0, 1]\<rparr>"
        "[0 \<mapsto> zero_Endpoint\<lparr>Deleted := Some 5, ID := 3\<rparr>,
          1 \<mapsto> zero_Endpoint\<lparr>Created := 7, ID := 3, IPv4 := Some [10, 0, 0, 1]\<rparr>,
          2 \<mapsto> zero_Endpoint\<lparr>ID := 3, IPv6 := Some [0, 0, 0, 0, 0, 0, 0, 0, 0, 0, 0, 0, 0, 0, 0, 1],
                 PodName := ''xwing''\<rparr>,
          3 \<mapsto> zero_Endpoint\<lparr>ID := 4\<rparr>]"
        3 "zero_Endpoint\<lparr>ID := 4\<rparr>"]
  by (simp add: UpdateEndpoint_def updateEndpoint_def live_match_def EqualsByID_def SetFrom_def
      zero_Endpoint_def)

subsection \<open>The endpoint table: Sync\<close>

lemma found_loop_wf:
  "set us \<subseteq> dom h \<Longrightarrow> found_loop h e us = Some (matches_some h us e)"
  by (induction us) (auto simp: matches_some_def split: option.splits)

lemma matches_some_mark:
  "h a = Some e0 \<Longrightarrow> matches_some (h(a \<mapsto> e0\<lparr>Deleted := t\<rparr>)) us e = matches_some h us e"
  by (induction us) (auto simp: matches_some_def EqualsByID_def split: option.splits)

lemma mark_loop_spec:
  assumes "set as \<subseteq> dom h" and "set newEps \<subseteq> dom h"
  shows "\<exists>h1 n1. mark_loop now newEps as (h, n) = Some (h1, n1) \<and> n \<le> n1 \<and> dom h1 = dom h \<and>
    (\<forall>a. a \<notin> set as \<longrightarrow> h1 a = h a) \<and>
    (\<forall>a e. h a = Some e \<longrightarrow> Deleted e \<noteq> None \<or> matches_some h newEps e \<longrightarrow> h1 a = Some e) \<and>
    (\<forall>a\<in>set as. \<forall>e. h a = Some e \<longrightarrow> Deleted e = None \<longrightarrow> \<not> matches_some h newEps e \<longrightarrow>
       (\<exists>k. n \<le> k \<and> k < n1 \<and> h1 a = Some (e\<lparr>Deleted := Some (now k)\<rparr>)))"
  using assms
proof (induction as arbitrary: h n)
  case Nil
  then show ?case by simp
next
  case (Cons a as)
  from Cons.prems obtain ep where ep: "h a = Some ep" by auto
  have fl: "found_loop h ep newEps = Some (matches_some h newEps ep)"
    using Cons.prems(2) by (rule found_loop_wf)
  show ?case
  proof (cases "Deleted ep \<noteq> None \<or> matches_some h newEps ep")
    case True
    then have step: "mark_loop now newEps (a # as) (h, n) = mark_loop now newEps as (h, n)"
      using ep fl by auto
    from Cons.prems have "set as \<subseteq> dom h" by simp
    from Cons.IH [OF this Cons.prems(2), of n] obtain h1 n1 where
      r: "mark_loop now newEps as (h, n) = Some (h1, n1)" "n \<le> n1" "dom h1 = dom h"
        "\<forall>a. a \<notin> set as \<longrightarrow> h1 a = h a"
        "\<forall>a e. h a = Some e \<longrightarrow> Deleted e \<noteq> None \<or> matches_some h newEps e \<longrightarrow> h1 a = Some e"
        "\<forall>a\<in>set as. \<forall>e. h a = Some e \<longrightarrow> Deleted e = None \<longrightarrow> \<not> matches_some h newEps e \<longrightarrow>
           (\<exists>k. n \<le> k \<and> k < n1 \<and> h1 a = Some (e\<lparr>Deleted := Some (now k)\<rparr>))"
      by blast
    have "\<forall>x\<in>set (a # as). \<forall>e. h x = Some e \<longrightarrow> Deleted e = None \<longrightarrow> \<not> matches_some h newEps e \<longrightarrow>
           (\<exists>k. n \<le> k \<and> k < n1 \<and> h1 x = Some (e\<lparr>Deleted := Some (now k)\<rparr>))"
      using r(6) True ep by auto
    with r step show ?thesis by auto
  next
    case False
    define ep' where "ep' = ep\<lparr>Deleted := Some (now n)\<rparr>"
    define h' where "h' = h(a \<mapsto> ep')"
    from False have step: "mark_loop now newEps (a # as) (h, n) = mark_loop now newEps as (h', Suc n)"
      using ep fl by (simp add: h'_def ep'_def)
    have domh': "dom h' = dom h" using ep by (auto simp: h'_def)
    have inv: "matches_some h' newEps e = matches_some h newEps e" for e
      unfolding h'_def ep'_def using ep by (rule matches_some_mark)
    from Cons.prems have "set as \<subseteq> dom h'" "set newEps \<subseteq> dom h'" by (simp_all add: domh')
    from Cons.IH [OF this, of "Suc n"] obtain h1 n1 where
      r: "mark_loop now newEps as (h', Suc n) = Some (h1, n1)" "Suc n \<le> n1" "dom h1 = dom h'"
        "\<forall>a. a \<notin> set as \<longrightarrow> h1 a = h' a"
        "\<forall>a e. h' a = Some e \<longrightarrow> Deleted e \<noteq> None \<or> matches_some h' newEps e \<longrightarrow> h1 a = Some e"
        "\<forall>a\<in>set as. \<forall>e. h' a = Some e \<longrightarrow> Deleted e = None \<longrightarrow> \<not> matches_some h' newEps e \<longrightarrow>
           (\<exists>k. Suc n \<le> k \<and> k < n1 \<and> h1 a = Some (e\<lparr>Deleted := Some (now k)\<rparr>))"
      by blast
    have h1a: "h1 a = Some ep'"
      using r(5) by (simp add: h'_def ep'_def)
    have p4: "\<forall>x. x \<notin> set (a # as) \<longrightarrow> h1 x = h x"
      using r(4) by (auto simp: h'_def)
    have p5: "\<forall>x e. h x = Some e \<longrightarrow> Deleted e \<noteq> None \<or> matches_some h newEps e \<longrightarrow> h1 x = Some e"
    proof (intro allI impI)
      fix x e assume x: "h x = Some e" and d: "Deleted e \<noteq> None \<or> matches_some h newEps e"
      with False ep have "x \<noteq> a" by auto
      then have "h' x = Some e" using x by (simp add: h'_def)
      with r(5) d inv show "h1 x = Some e" by blast
    qed
    have p6: "\<forall>x\<in>set (a # as). \<forall>e. h x = Some e \<longrightarrow> Deleted e = None \<longrightarrow> \<not> matches_some h newEps e \<longrightarrow>
           (\<exists>k. n \<le> k \<and> k < n1 \<and> h1 x = Some (e\<lparr>Deleted := Some (now k)\<rparr>))"
    proof (intro ballI allI impI)
      fix x e assume xs: "x \<in> set (a # as)" and x: "h x = Some e" and d: "Deleted e = None"
        and m: "\<not> matches_some h newEps e"
      show "\<exists>k. n \<le> k \<and> k < n1 \<and> h1 x = Some (e\<lparr>Deleted := Some (now k)\<rparr>)"
      proof (cases "x = a")
        case True
        with x ep have "e = ep" by simp
        with h1a True r(2) show ?thesis by (auto simp: ep'_def intro!: exI [of _ n])
      next
        case False
        with xs have "x \<in> set as" by simp
        moreover from False x have "h' x = Some e" by (simp add: h'_def)
        ultimately obtain k where "Suc n \<le> k" "k < n1" "h1 x = Some (e\<lparr>Deleted := Some (now k)\<rparr>)"
          using r(6) d m inv by blast
        then show ?thesis by (auto intro!: exI [of _ k])
      qed
    qed
    from r(1,2,3) step domh' p4 p5 p6 show ?thesis by auto
  qed
qed

lemma update_loop_ok:
  assumes "set (eps es) \<subseteq> dom h" and "set us \<subseteq> dom h"
  shows "\<exists>h2 es2. update_loop (h, es) us = Some (h2, es2) \<and> dom h2 = dom h \<and>
     (\<forall>a. deleted_at h2 a = deleted_at h a) \<and> set (eps es2) \<subseteq> set (eps es) \<union> set us \<and>
     prefix (eps es) (eps es2)"
  using assms
proof (induction us arbitrary: h es)
  case Nil
  then show ?case by simp
next
  case (Cons u us)
  from Cons.prems have u: "u \<in> dom h" by simp
  from updateEndpoint_ok [OF Cons.prems(1) u] obtain h' es' where
    s: "updateEndpoint (h, es) u = Some (h', es')" "dom h' = dom h"
      "\<forall>a. deleted_at h' a = deleted_at h a" "eps es' = eps es \<or> eps es' = eps es @ [u]"
    by blast
  have "set (eps es') \<subseteq> dom h'" "set us \<subseteq> dom h'"
    using s(2,4) Cons.prems u by auto
  from Cons.IH [OF this] obtain h2 es2 where
    r: "update_loop (h', es') us = Some (h2, es2)" "dom h2 = dom h'"
      "\<forall>a. deleted_at h2 a = deleted_at h' a" "set (eps es2) \<subseteq> set (eps es') \<union> set us"
      "prefix (eps es') (eps es2)"
    by blast
  have "prefix (eps es) (eps es')" using s(4) by auto
  with r(5) have "prefix (eps es) (eps es2)" by (metis prefix_order.trans)
  moreover have "set (eps es2) \<subseteq> set (eps es) \<union> set (u # us)"
    using r(4) s(4) by auto
  ultimately show ?case using s r by auto
qed

lemma fold_bind_None:
  "fold (\<lambda>u r. Option.bind r (\<lambda>s. f s u)) us None = None"
  by (induction us) simp_all

lemma update_loop_fold:
  "update_loop s us = fold (\<lambda>u r. Option.bind r (\<lambda>s. UpdateEndpoint s u)) us (Some s)"
  by (induction us arbitrary: s) (auto simp: UpdateEndpoint_def fold_bind_None split: option.splits)

text \<open>
  C3, as the claim states it, fails for the empty list: \<^verbatim>\<open>SyncEndpoints\<close> returns at once
  when \<^verbatim>\<open>len(newEps) == 0\<close>, so a tracked live endpoint, which matches no element of
  the empty list, is not stamped.
\<close>

theorem SyncEndpoints_empty_list_marks_nothing:
  "SyncEndpoints (\<lambda>k. 100 + int k) ([0 \<mapsto> zero_Endpoint\<lparr>ID := 1\<rparr>], 0, \<lparr>eps = [0]\<rparr>) [] =
     Some ([0 \<mapsto> zero_Endpoint\<lparr>ID := 1\<rparr>], 0, \<lparr>eps = [0]\<rparr>) \<and>
   live [0 \<mapsto> zero_Endpoint\<lparr>ID := 1\<rparr>] 0 \<and>
   \<not> matches_some [0 \<mapsto> zero_Endpoint\<lparr>ID := 1\<rparr>] [] (zero_Endpoint\<lparr>ID := 1\<rparr>) \<and>
   deleted_at [0 \<mapsto> zero_Endpoint\<lparr>ID := 1\<rparr>] 0 = Some None"
  by (simp add: SyncEndpoints_def live_def matches_some_def deleted_at_def zero_Endpoint_def)

text \<open>
  C3, amended: \<^verbatim>\<open>SyncEndpoints\<close> with the empty list changes nothing. With a list
  \<^verbatim>\<open>newEps\<close> that is not empty (and no \<^verbatim>\<open>nil\<close> pointer in the table or the list) it
  first stamps deleted-at with a reading of the clock taken during the call on every
  tracked live endpoint that equals no element of \<^verbatim>\<open>newEps\<close> by \<^verbatim>\<open>EqualsByID\<close>, leaves
  the deleted-at of every tombstoned entry as it is and every matched live entry live,
  and then upserts every endpoint of \<^verbatim>\<open>newEps\<close>, in order, via \<^verbatim>\<open>UpdateEndpoint\<close>; the
  upserts change no deleted-at.
\<close>

theorem SyncEndpoints_marks_then_updates:
  assumes "set (eps es) \<subseteq> dom h" and "set newEps \<subseteq> dom h"
  shows "(newEps = [] \<longrightarrow> SyncEndpoints now (h, n, es) newEps = Some (h, n, es)) \<and>
    (newEps \<noteq> [] \<longrightarrow>
      (\<exists>h1 n1 h2 es2.
         mark_loop now newEps (eps es) (h, n) = Some (h1, n1) \<and>
         fold (\<lambda>u r. Option.bind r (\<lambda>s. UpdateEndpoint s u)) newEps (Some (h1, es)) = Some (h2, es2) \<and>
         SyncEndpoints now (h, n, es) newEps = Some (h2, n1, es2) \<and>
         (\<forall>a\<in>set (eps es). \<forall>e. h a = Some e \<longrightarrow>
            (Deleted e = None \<and> \<not> matches_some h newEps e \<longrightarrow>
               (\<exists>k. n \<le> k \<and> k < n1 \<and> deleted_at h1 a = Some (Some (now k)) \<and>
                    deleted_at h2 a = Some (Some (now k)))) \<and>
            (Deleted e \<noteq> None \<longrightarrow>
               deleted_at h1 a = Some (Deleted e) \<and> deleted_at h2 a = Some (Deleted e)) \<and>
            (Deleted e = None \<and> matches_some h newEps e \<longrightarrow>
               deleted_at h1 a = Some None \<and> deleted_at h2 a = Some None))))"
proof (intro conjI impI)
  assume "newEps = []"
  then show "SyncEndpoints now (h, n, es) newEps = Some (h, n, es)"
    by (simp add: SyncEndpoints_def)
next
  assume ne: "newEps \<noteq> []"
  from mark_loop_spec [OF assms, of now n] obtain h1 n1 where
    m: "mark_loop now newEps (eps es) (h, n) = Some (h1, n1)" "dom h1 = dom h"
      "\<forall>a e. h a = Some e \<longrightarrow> Deleted e \<noteq> None \<or> matches_some h newEps e \<longrightarrow> h1 a = Some e"
      "\<forall>a\<in>set (eps es). \<forall>e. h a = Some e \<longrightarrow> Deleted e = None \<longrightarrow> \<not> matches_some h newEps e \<longrightarrow>
         (\<exists>k. n \<le> k \<and> k < n1 \<and> h1 a = Some (e\<lparr>Deleted := Some (now k)\<rparr>))"
    by blast
  have "set (eps es) \<subseteq> dom h1" "set newEps \<subseteq> dom h1"
    using assms m(2) by simp_all
  from update_loop_ok [OF this] obtain h2 es2 where
    u: "update_loop (h1, es) newEps = Some (h2, es2)" "\<forall>a. deleted_at h2 a = deleted_at h1 a"
    by blast
  have s: "SyncEndpoints now (h, n, es) newEps = Some (h2, n1, es2)"
    using ne m(1) u(1) by (simp add: SyncEndpoints_def)
  have f: "fold (\<lambda>u r. Option.bind r (\<lambda>s. UpdateEndpoint s u)) newEps (Some (h1, es)) = Some (h2, es2)"
    using u(1) by (simp add: update_loop_fold)
  have d: "\<forall>a\<in>set (eps es). \<forall>e. h a = Some e \<longrightarrow>
            (Deleted e = None \<and> \<not> matches_some h newEps e \<longrightarrow>
               (\<exists>k. n \<le> k \<and> k < n1 \<and> deleted_at h1 a = Some (Some (now k)) \<and>
                    deleted_at h2 a = Some (Some (now k)))) \<and>
            (Deleted e \<noteq> None \<longrightarrow>
               deleted_at h1 a = Some (Deleted e) \<and> deleted_at h2 a = Some (Deleted e)) \<and>
            (Deleted e = None \<and> matches_some h newEps e \<longrightarrow>
               deleted_at h1 a = Some None \<and> deleted_at h2 a = Some None)"
  proof (intro ballI allI impI conjI)
    fix a e assume a: "a \<in> set (eps es)" and e: "h a = Some e"
    {
      assume "Deleted e = None \<and> \<not> matches_some h newEps e"
      with m(4) a e obtain k where k: "n \<le> k" "k < n1" "h1 a = Some (e\<lparr>Deleted := Some (now k)\<rparr>)"
        by blast
      then have "deleted_at h1 a = Some (Some (now k))" by (simp add: deleted_at_def)
      with k u(2) show "\<exists>k. n \<le> k \<and> k < n1 \<and> deleted_at h1 a = Some (Some (now k)) \<and>
                    deleted_at h2 a = Some (Some (now k))"
        by auto
    }
    {
      assume "Deleted e \<noteq> None"
      with m(3) e have "h1 a = Some e" by blast
      then show "deleted_at h1 a = Some (Deleted e)" by (simp add: deleted_at_def)
      with u(2) show "deleted_at h2 a = Some (Deleted e)" by simp
    }
    {
      assume "Deleted e = None \<and> matches_some h newEps e"
      with m(3) e have "h1 a = Some e" "Deleted e = None" by blast+
      then show "deleted_at h1 a = Some None" by (simp add: deleted_at_def)
      with u(2) show "deleted_at h2 a = Some None" by simp
    }
  qed
  from m(1) f s d show "\<exists>h1 n1 h2 es2.
         mark_loop now newEps (eps es) (h, n) = Some (h1, n1) \<and>
         fold (\<lambda>u r. Option.bind r (\<lambda>s. UpdateEndpoint s u)) newEps (Some (h1, es)) = Some (h2, es2) \<and>
         SyncEndpoints now (h, n, es) newEps = Some (h2, n1, es2) \<and>
         (\<forall>a\<in>set (eps es). \<forall>e. h a = Some e \<longrightarrow>
            (Deleted e = None \<and> \<not> matches_some h newEps e \<longrightarrow>
               (\<exists>k. n \<le> k \<and> k < n1 \<and> deleted_at h1 a = Some (Some (now k)) \<and>
                    deleted_at h2 a = Some (Some (now k)))) \<and>
            (Deleted e \<noteq> None \<longrightarrow>
               deleted_at h1 a = Some (Deleted e) \<and> deleted_at h2 a = Some (Deleted e)) \<and>
            (Deleted e = None \<and> matches_some h newEps e \<longrightarrow>
               deleted_at h1 a = Some None \<and> deleted_at h2 a = Some None))"
    by blast
qed

theorem SyncEndpoints_marks_then_updates_witness:
  "set (eps \<lparr>eps = [0, 1, 2]\<rparr>) \<subseteq>
     dom [0 \<mapsto> zero_Endpoint\<lparr>ID := 1\<rparr>, 1 \<mapsto> zero_Endpoint\<lparr>Deleted := Some 3, ID := 2\<rparr>,
          2 \<mapsto> zero_Endpoint\<lparr>ID := 3\<rparr>, 3 \<mapsto> zero_Endpoint\<lparr>ID := 3, PodName := ''p''\<rparr>,
          4 \<mapsto> zero_Endpoint\<lparr>ID := 9\<rparr>] \<and>
   set [3, 4] \<subseteq>
     dom [0 \<mapsto> zero_Endpoint\<lparr>ID := 1\<rparr>, 1 \<mapsto> zero_Endpoint\<lparr>Deleted := Some 3, ID := 2\<rparr>,
          2 \<mapsto> zero_Endpoint\<lparr>ID := 3\<rparr>, 3 \<mapsto> zero_Endpoint\<lparr>ID := 3, PodName := ''p''\<rparr>,
          4 \<mapsto> zero_Endpoint\<lparr>ID := 9\<rparr>] \<and>
   [3, 4] \<noteq> ([] :: addr list) \<and>
   map_option (\<lambda>(h, n, es). (deleted_at h 0, deleted_at h 1, deleted_at h 2, map_option PodName (h 2), n, eps es))
     (SyncEndpoints (\<lambda>k. 100 + int k)
        ([0 \<mapsto> zero_Endpoint\<lparr>ID := 1\<rparr>, 1 \<mapsto> zero_Endpoint\<lparr>Deleted := Some 3, ID := 2\<rparr>,
          2 \<mapsto> zero_Endpoint\<lparr>ID := 3\<rparr>, 3 \<mapsto> zero_Endpoint\<lparr>ID := 3, PodName := ''p''\<rparr>,
          4 \<mapsto> zero_Endpoint\<lparr>ID := 9\<rparr>], 0, \<lparr>eps = [0, 1, 2]\<rparr>) [3, 4]) =
     Some (Some (Some 100), Some (Some 3), Some None, Some ''p'', 1, [0, 1, 2, 4])"
  using SyncEndpoints_marks_then_updates
    [of "\<lparr>eps = [0, 1, 2]\<rparr>"
        "[0 \<mapsto> zero_Endpoint\<lparr>ID := 1\<rparr>, 1 \<mapsto> zero_Endpoint\<lparr>Deleted := Some 3, ID := 2\<rparr>,
          2 \<mapsto> zero_Endpoint\<lparr>ID := 3\<rparr>, 3 \<mapsto> zero_Endpoint\<lparr>ID := 3, PodName := ''p''\<rparr>,
          4 \<mapsto> zero_Endpoint\<lparr>ID := 9\<rparr>]"
        "[3, 4]" "\<lambda>k. 100 + int k" 0]
  by (simp add: SyncEndpoints_def updateEndpoint_def deleted_at_def zero_Endpoint_def
      EqualsByID_def SetFrom_def)

subsection \<open>CIDR labels\<close>

text \<open>The four cases of \<^verbatim>\<open>Test_filterCidrLabels\<close>.\<close>

lemma filterCidrLabels_tests:
  "filterCidrLabels [''b'', ''cidr:1.1.1.1/23'', ''a'', ''d'', ''cidr:1.1.1.1/24''] =
     [''b'', ''a'', ''d'', ''cidr:1.1.1.1/24'']"
  "filterCidrLabels [''b'', ''c'', ''a''] = [''b'', ''c'', ''a'']"
  "filterCidrLabels [''cidr:1.1.1.1/0'', ''cidr:1.1.1.1/32'', ''cidr:1.1.1.1/16''] = [''cidr:1.1.1.1/32'']"
  "filterCidrLabels [] = []"
  by (simp_all add: filterCidrLabels_def prefix_length_def hasCidrPrefix_def parse_decimal_def is_digit_def)

lemma most_specific_None:
  "most_specific labels = None \<longleftrightarrow> (\<forall>l\<in>set labels. prefix_length l = None)"
  by (induction labels) (auto split: option.splits if_splits)

lemma most_specific_Some:
  "most_specific labels = Some (l, n) \<Longrightarrow>
     l \<in> set labels \<and> prefix_length l = Some n \<and>
     (\<forall>l'\<in>set labels. \<forall>m. prefix_length l' = Some m \<longrightarrow> m \<le> n)"
proof (induction labels arbitrary: l n)
  case Nil
  then show ?case by simp
next
  case (Cons a labels)
  show ?case
  proof (cases "prefix_length a")
    case None
    with Cons show ?thesis by auto
  next
    case (Some k)
    show ?thesis
    proof (cases "most_specific labels")
      case None
      with Some Cons.prems have "l = a" "n = k" by simp_all
      moreover from None have "\<forall>l\<in>set labels. prefix_length l = None"
        by (simp add: most_specific_None)
      ultimately show ?thesis using Some by auto
    next
      case inner: (Some p)
      note Some2 = inner
      obtain m j where p: "p = (m, j)" by (cases p)
      from Cons.IH [of m j] Some2 p have
        ih: "m \<in> set labels" "prefix_length m = Some j"
          "\<forall>l'\<in>set labels. \<forall>m. prefix_length l' = Some m \<longrightarrow> m \<le> j"
        by simp_all
      show ?thesis
      proof (cases "k < j")
        case True
        with Some Some2 p Cons.prems have "l = m" "n = j" by simp_all
        with ih True Some show ?thesis by auto
      next
        case False
        with Some Some2 p Cons.prems have "l = a" "n = k" by simp_all
        with ih False Some show ?thesis by fastforce
      qed
    qed
  qed
qed

lemma prefix_length_cidr: "prefix_length l = Some n \<Longrightarrow> hasCidrPrefix l"
  by (simp add: prefix_length_def split: if_splits)

text \<open>
  C6: for every list of labels \<open>L\<close>, \<^verbatim>\<open>filterCidrLabels(L)\<close> holds at most one label
  prefixed \<^verbatim>\<open>cidr:\<close>; that label is a label of \<open>L\<close> with the largest prefix length among
  the CIDR labels of \<open>L\<close> (and there is one when \<open>L\<close> has a CIDR label); the labels
  without the prefix are those of \<open>L\<close> in their order; the empty list gives the empty
  list.
\<close>

theorem filterCidrLabels_most_specific:
  "length (filter hasCidrPrefix (filterCidrLabels L)) \<le> 1 \<and>
   (\<forall>l\<in>set (filterCidrLabels L). hasCidrPrefix l \<longrightarrow>
      l \<in> set L \<and>
      (\<exists>n. prefix_length l = Some n \<and>
           (\<forall>l'\<in>set L. \<forall>m. prefix_length l' = Some m \<longrightarrow> m \<le> n))) \<and>
   ((\<exists>l\<in>set L. prefix_length l \<noteq> None) \<longrightarrow> (\<exists>l\<in>set (filterCidrLabels L). hasCidrPrefix l)) \<and>
   filter (\<lambda>l. \<not> hasCidrPrefix l) (filterCidrLabels L) = filter (\<lambda>l. \<not> hasCidrPrefix l) L \<and>
   filterCidrLabels [] = []"
proof (cases "most_specific L")
  case None
  then have "filterCidrLabels L = filter (\<lambda>l. \<not> hasCidrPrefix l) L"
    by (simp add: filterCidrLabels_def)
  moreover from None have "\<forall>l\<in>set L. prefix_length l = None"
    by (simp add: most_specific_None)
  ultimately show ?thesis
    by (auto simp: filterCidrLabels_def)
next
  case (Some p)
  obtain c n where p: "p = (c, n)" by (cases p)
  from most_specific_Some [of L c n] Some p have
    c: "c \<in> set L" "prefix_length c = Some n"
      "\<forall>l'\<in>set L. \<forall>m. prefix_length l' = Some m \<longrightarrow> m \<le> n"
    by simp_all
  from c(2) have cc: "hasCidrPrefix c" by (rule prefix_length_cidr)
  have f: "filterCidrLabels L = filter (\<lambda>l. \<not> hasCidrPrefix l) L @ [c]"
    using Some p by (simp add: filterCidrLabels_def)
  have 1: "length (filter hasCidrPrefix (filterCidrLabels L)) \<le> 1"
    using cc by (simp add: f)
  have 2: "\<forall>l\<in>set (filterCidrLabels L). hasCidrPrefix l \<longrightarrow>
      l \<in> set L \<and>
      (\<exists>n. prefix_length l = Some n \<and>
           (\<forall>l'\<in>set L. \<forall>m. prefix_length l' = Some m \<longrightarrow> m \<le> n))"
    using c by (auto simp: f)
  have 3: "(\<exists>l\<in>set L. prefix_length l \<noteq> None) \<longrightarrow> (\<exists>l\<in>set (filterCidrLabels L). hasCidrPrefix l)"
    using cc by (auto simp: f)
  have 4: "filter (\<lambda>l. \<not> hasCidrPrefix l) (filterCidrLabels L) = filter (\<lambda>l. \<not> hasCidrPrefix l) L"
    using cc by (simp add: f)
  have 5: "filterCidrLabels [] = []"
    by (simp add: filterCidrLabels_def)
  from 1 2 3 4 5 show ?thesis by blast
qed

theorem filterCidrLabels_most_specific_witness:
  "filterCidrLabels [''b'', ''cidr:1.1.1.1/23'', ''a'', ''d'', ''cidr:1.1.1.1/24''] =
     [''b'', ''a'', ''d'', ''cidr:1.1.1.1/24''] \<and>
   hasCidrPrefix ''cidr:1.1.1.1/24'' \<and>
   prefix_length ''cidr:1.1.1.1/24'' = Some 24 \<and>
   prefix_length ''cidr:1.1.1.1/23'' = Some 23 \<and>
   filter (\<lambda>l. \<not> hasCidrPrefix l) [''b'', ''cidr:1.1.1.1/23'', ''a'', ''d'', ''cidr:1.1.1.1/24''] =
     [''b'', ''a'', ''d'']"
  using filterCidrLabels_most_specific [of "[''b'', ''cidr:1.1.1.1/23'', ''a'', ''d'', ''cidr:1.1.1.1/24'']"]
  by (simp add: filterCidrLabels_def prefix_length_def hasCidrPrefix_def parse_decimal_def is_digit_def)

subsection \<open>Trace events: the original source IP\<close>

text \<open>
  C7: for every trace event that decodes, the L3 source IP of the flow is the original
  IP when the header is version 1 and its original IP is not zero, and the source IP of
  the embedded packet when the original IP is zero or the header is version 0.
\<close>

theorem decode_trace_original_ip:
  "decode_trace tn l3 = Inr f \<Longrightarrow>
     (Version tn = 1 \<and> \<not> is_zero_IP (OrigIP tn) \<longrightarrow> source f = OrigIP tn) \<and>
     (is_zero_IP (OrigIP tn) \<or> Version tn = 0 \<longrightarrow> (\<exists>ip. l3 = Some ip \<and> source f = SrcIP ip))"
  by (auto simp: decode_trace_def split: if_splits option.splits)

theorem decode_trace_original_ip_witness:
  "decode_trace \<lparr>Version = 0, OrigIP = [0, 0, 0, 0, 0, 0, 0, 0, 0, 0, 0, 0, 0, 0, 0, 0]\<rparr>
     (Some \<lparr>SrcIP = [2, 2, 2, 2], DstIP = [3, 3, 3, 3]\<rparr>) =
     Inr \<lparr>source = [2, 2, 2, 2], destination = [3, 3, 3, 3]\<rparr> \<and>
   decode_trace \<lparr>Version = 1, OrigIP = [1, 1, 1, 1, 0, 0, 0, 0, 0, 0, 0, 0, 0, 0, 0, 0]\<rparr>
     (Some \<lparr>SrcIP = [2, 2, 2, 2], DstIP = [3, 3, 3, 3]\<rparr>) =
     Inr \<lparr>source = [1, 1, 1, 1, 0, 0, 0, 0, 0, 0, 0, 0, 0, 0, 0, 0], destination = [3, 3, 3, 3]\<rparr> \<and>
   \<not> is_zero_IP [1, 1, 1, 1, 0, 0, 0, 0, 0, 0, 0, 0, 0, 0, 0, 0]"
  using decode_trace_original_ip
    [of "\<lparr>Version = 0, OrigIP = [0, 0, 0, 0, 0, 0, 0, 0, 0, 0, 0, 0, 0, 0, 0, 0]\<rparr>"
        "Some \<lparr>SrcIP = [2, 2, 2, 2], DstIP = [3, 3, 3, 3]\<rparr>"
        "\<lparr>source = [2, 2, 2, 2], destination = [3, 3, 3, 3]\<rparr>"]
    decode_trace_original_ip
    [of "\<lparr>Version = 1, OrigIP = [1, 1, 1, 1, 0, 0, 0, 0, 0, 0, 0, 0, 0, 0, 0, 0]\<rparr>"
        "Some \<lparr>SrcIP = [2, 2, 2, 2], DstIP = [3, 3, 3, 3]\<rparr>"
        "\<lparr>source = [1, 1, 1, 1, 0, 0, 0, 0, 0, 0, 0, 0, 0, 0, 0, 0], destination = [3, 3, 3, 3]\<rparr>"]
  by (simp add: decode_trace_def is_zero_IP_def)

subsection \<open>IP cache\<close>

text \<open>
  C8: an upsert whose old identity is present and differs from the identity stored for
  the CIDR leaves the cache as it was, called directly or through the sync loop's
  dispatch; and after the sequence of scenario 5 \<^verbatim>\<open>GetPodNameOf\<close> gives
  \<^verbatim>\<open>(ns-1, pod-1, true)\<close>, \<^verbatim>\<open>(ns-2, pod-2, true)\<close>, \<^verbatim>\<open>(ns-3, pod-3, true)\<close> and
  \<^verbatim>\<open>("", "", false)\<close> for 1.1.1.1, 2.2.2.2, 3.3.3.3 and 4.4.4.4.
\<close>

theorem Upsert_stale_is_noop:
  "(stored_identity c cidr = Some current \<and> current \<noteq> old \<longrightarrow>
      Upsert c cidr newIdentity (Some old) hostIP oldHostIP encryptKey namespace pod = c \<and>
      dispatch c (IPCacheUpserted cidr newIdentity (Some old) hostIP oldHostIP encryptKey namespace pod) = c) \<and>
   GetPodNameOf scenario5 [1, 1, 1, 1] = (''ns-1'', ''pod-1'', True) \<and>
   GetPodNameOf scenario5 [2, 2, 2, 2] = (''ns-2'', ''pod-2'', True) \<and>
   GetPodNameOf scenario5 [3, 3, 3, 3] = (''ns-3'', ''pod-3'', True) \<and>
   GetPodNameOf scenario5 [4, 4, 4, 4] = ([], [], False)"
proof -
  have "stored_identity c cidr = Some current \<and> current \<noteq> old \<longrightarrow>
      Upsert c cidr newIdentity (Some old) hostIP oldHostIP encryptKey namespace pod = c \<and>
      dispatch c (IPCacheUpserted cidr newIdentity (Some old) hostIP oldHostIP encryptKey namespace pod) = c"
    by (simp add: Upsert_def)
  moreover have "GetPodNameOf scenario5 [1, 1, 1, 1] = (''ns-1'', ''pod-1'', True)"
    by (simp add: scenario5_def SyncLoop_def bootstrap_def Upsert_def Delete_def stored_identity_def
      GetPodNameOf_def covers_def ip_bits_def)
  moreover have "GetPodNameOf scenario5 [2, 2, 2, 2] = (''ns-2'', ''pod-2'', True)"
    by (simp add: scenario5_def SyncLoop_def bootstrap_def Upsert_def Delete_def stored_identity_def
      GetPodNameOf_def covers_def ip_bits_def)
  moreover have "GetPodNameOf scenario5 [3, 3, 3, 3] = (''ns-3'', ''pod-3'', True)"
    by (simp add: scenario5_def SyncLoop_def bootstrap_def Upsert_def Delete_def stored_identity_def
      GetPodNameOf_def covers_def ip_bits_def)
  moreover have "GetPodNameOf scenario5 [4, 4, 4, 4] = ([], [], False)"
    by (simp add: scenario5_def SyncLoop_def bootstrap_def Upsert_def Delete_def stored_identity_def
      GetPodNameOf_def covers_def ip_bits_def)
  ultimately show ?thesis by blast
qed

theorem Upsert_stale_is_noop_witness:
  "stored_identity
     (bootstrap
        [(([1, 1, 1, 1], 32), 100, [], []), (([2, 2, 2, 2], 32), 100, [], []),
         (([3, 3, 3, 3], 32), 100, ''ns-3'', ''pod-3''), (([4, 4, 4, 4], 32), 100, [], [])])
     ([3, 3, 3, 3], 32) = Some 100 \<and>
   (100 :: 32 word) \<noteq> 200 \<and>
   dispatch
     (bootstrap
        [(([1, 1, 1, 1], 32), 100, [], []), (([2, 2, 2, 2], 32), 100, [], []),
         (([3, 3, 3, 3], 32), 100, ''ns-3'', ''pod-3''), (([4, 4, 4, 4], 32), 100, [], [])])
     (IPCacheUpserted ([3, 3, 3, 3], 32) 100 (Some 200) None None 0 [] []) =
   bootstrap
     [(([1, 1, 1, 1], 32), 100, [], []), (([2, 2, 2, 2], 32), 100, [], []),
      (([3, 3, 3, 3], 32), 100, ''ns-3'', ''pod-3''), (([4, 4, 4, 4], 32), 100, [], [])]"
  using Upsert_stale_is_noop
    [of "bootstrap
        [(([1, 1, 1, 1], 32), 100, [], []), (([2, 2, 2, 2], 32), 100, [], []),
         (([3, 3, 3, 3], 32), 100, ''ns-3'', ''pod-3''), (([4, 4, 4, 4], 32), 100, [], [])]"
       "([3, 3, 3, 3], 32)" 100 200 100 None None 0 "[]" "[]"]
  by (simp add: bootstrap_def Upsert_def stored_identity_def)

end
